theory Spec2Isabelle
  imports Complex_Main "HOL-Library.Sublist"
begin

section \<open>Python values and the operations main.py applies to them\<close>

text \<open>
  The values the handlers of \<^verbatim>\<open>main.py\<close> work on are what \<^verbatim>\<open>json.loads\<close> produces:
  \<^verbatim>\<open>None\<close>, \<^verbatim>\<open>bool\<close>, \<^verbatim>\<open>int\<close>, \<^verbatim>\<open>float\<close>, \<^verbatim>\<open>str\<close>, \<^verbatim>\<open>list\<close> and \<^verbatim>\<open>dict\<close> with string
  keys. A \<^verbatim>\<open>dict\<close> is an association list in insertion order, looked up with
  \<^const>\<open>map_of\<close>. A character of a Python string is a \<^typ>\<open>char\<close>, so the strings of the
  model are those over the first 256 code points. A finite float is a \<^typ>\<open>real\<close>.
\<close>

datatype py =
    PyNone
  | PyBool bool
  | PyInt int
  | PyFloat real
  | PyStr string
  | PyList "py list"
  | PyDict "(string \<times> py) list"

text \<open>Truth value testing, as \<^verbatim>\<open>if x\<close>, \<^verbatim>\<open>not x\<close> and \<^verbatim>\<open>x or y\<close> do it.\<close>

fun truthy :: "py \<Rightarrow> bool" where
  "truthy PyNone = False"
| "truthy (PyBool b) = b"
| "truthy (PyInt i) = (i \<noteq> 0)"
| "truthy (PyFloat r) = (r \<noteq> 0)"
| "truthy (PyStr s) = (s \<noteq> [])"
| "truthy (PyList xs) = (xs \<noteq> [])"
| "truthy (PyDict d) = (d \<noteq> [])"

fun type_name :: "py \<Rightarrow> string" where
  "type_name PyNone = ''NoneType''"
| "type_name (PyBool b) = ''bool''"
| "type_name (PyInt i) = ''int''"
| "type_name (PyFloat r) = ''float''"
| "type_name (PyStr s) = ''str''"
| "type_name (PyList xs) = ''list''"
| "type_name (PyDict d) = ''dict''"

text \<open>
  Exceptions. \<^verbatim>\<open>HTTPException(status_code, detail)\<close> is what FastAPI turns into an
  error response; every other exception is kept as its message \<^verbatim>\<open>str(e)\<close>, which is
  all the handlers read of it. The wording of the interpreter's own messages is
  CPython's (3.11).
\<close>

datatype py_exception = HTTPException nat string | Error string

type_synonym 'a result = "py_exception + 'a"

definition sq :: string where
  "sq = [CHR 0x27]"

definition AttributeError :: "py \<Rightarrow> string \<Rightarrow> py_exception" where
  "AttributeError v attr =
     Error (sq @ type_name v @ sq @ '' object has no attribute '' @ sq @ attr @ sq)"

definition not_subscriptable :: "py \<Rightarrow> py_exception" where
  "not_subscriptable v = Error (sq @ type_name v @ sq @ '' object is not subscriptable'')"

definition has_no_len :: "py \<Rightarrow> py_exception" where
  "has_no_len v = Error (''object of type '' @ sq @ type_name v @ sq @ '' has no len()'')"

text \<open>\<^verbatim>\<open>d.get(key, default)\<close> on a dict, and \<^verbatim>\<open>obj.get(key, default)\<close> on any value:
  only a dict has the method.\<close>

definition dict_get :: "(string \<times> py) list \<Rightarrow> string \<Rightarrow> py \<Rightarrow> py" where
  "dict_get d k dflt = (case map_of d k of None \<Rightarrow> dflt | Some v \<Rightarrow> v)"

fun py_get :: "py \<Rightarrow> string \<Rightarrow> py \<Rightarrow> py result" where
  "py_get (PyDict d) k dflt = Inr (dict_get d k dflt)"
| "py_get v k dflt = Inl (AttributeError v ''get'')"

text \<open>\<^verbatim>\<open>obj["key"]\<close> with a string key.\<close>

fun getitem_str :: "py \<Rightarrow> string \<Rightarrow> py result" where
  "getitem_str (PyDict d) k =
     (case map_of d k of None \<Rightarrow> Inl (Error (sq @ k @ sq)) | Some v \<Rightarrow> Inr v)"
| "getitem_str (PyList xs) k =
     Inl (Error ''list indices must be integers or slices, not str'')"
| "getitem_str (PyStr s) k =
     Inl (Error (''string indices must be integers, not '' @ sq @ ''str'' @ sq))"
| "getitem_str v k = Inl (not_subscriptable v)"

text \<open>\<^verbatim>\<open>obj[0]\<close>.\<close>

fun getitem_0 :: "py \<Rightarrow> py result" where
  "getitem_0 (PyList xs) =
     (case xs of [] \<Rightarrow> Inl (Error ''list index out of range'') | x # _ \<Rightarrow> Inr x)"
| "getitem_0 (PyStr s) =
     (case s of [] \<Rightarrow> Inl (Error ''string index out of range'') | c # _ \<Rightarrow> Inr (PyStr [c]))"
| "getitem_0 (PyDict d) = Inl (Error ''0'')"
| "getitem_0 v = Inl (not_subscriptable v)"

fun py_len :: "py \<Rightarrow> nat result" where
  "py_len (PyList xs) = Inr (length xs)"
| "py_len (PyStr s) = Inr (length s)"
| "py_len (PyDict d) = Inr (length d)"
| "py_len v = Inl (has_no_len v)"

text \<open>\<^verbatim>\<open>str(n)\<close> of an integer, in decimal.\<close>

function str_nat :: "nat \<Rightarrow> string" where
  "str_nat n =
     (if n < 10 then [''0123456789'' ! n]
      else str_nat (n div 10) @ [''0123456789'' ! (n mod 10)])"
  by pat_completeness auto
termination
  by (relation "measure id") auto

definition str_int :: "int \<Rightarrow> string" where
  "str_int i = (if i < 0 then CHR ''-'' # str_nat (nat (- i)) else str_nat (nat i))"

text \<open>
  \<^verbatim>\<open>str(v)\<close>, which is also what an f-string substitutes. The text of a float, a list or
  a dict is the interpreter's \<^verbatim>\<open>repr\<close>, taken as the parameter \<open>repr\<close>.
\<close>

fun py_str :: "(py \<Rightarrow> string) \<Rightarrow> py \<Rightarrow> string" where
  "py_str repr PyNone = ''None''"
| "py_str repr (PyBool b) = (if b then ''True'' else ''False'')"
| "py_str repr (PyInt i) = str_int i"
| "py_str repr (PyStr s) = s"
| "py_str repr v = repr v"

text \<open>
  \<^verbatim>\<open>s.replace(old, new)\<close>: every non-overlapping occurrence, from the left. With an
  empty \<open>old\<close> Python puts \<open>new\<close> before every character and at the end.
\<close>

function replace_from :: "string \<Rightarrow> string \<Rightarrow> string \<Rightarrow> string" where
  "replace_from old new s =
     (if old = [] \<or> s = [] then s
      else if prefix old s then new @ replace_from old new (drop (length old) s)
      else hd s # replace_from old new (tl s))"
  by pat_completeness auto
termination
  by (relation "measure (\<lambda>(old, new, s). length s)") auto

definition replace :: "string \<Rightarrow> string \<Rightarrow> string \<Rightarrow> string" where
  "replace s old new =
     (if old = [] then new @ concat (map (\<lambda>c. c # new) s) else replace_from old new s)"

text \<open>\<^verbatim>\<open>s.rstrip('/')\<close>.\<close>

definition rstrip_slash :: "string \<Rightarrow> string" where
  "rstrip_slash s = rev (dropWhile (\<lambda>c. c = CHR ''/'') (rev s))"

text \<open>\<^verbatim>\<open>', '.join(x)\<close>: over the items of a list, the keys of a dict or the characters
  of a string; every item has to be a string.\<close>

fun join_strs :: "string list \<Rightarrow> string" where
  "join_strs [] = []"
| "join_strs [s] = s"
| "join_strs (s # t # ss) = s @ '', '' @ join_strs (t # ss)"

fun str_items :: "nat \<Rightarrow> py list \<Rightarrow> string list result" where
  "str_items i [] = Inr []"
| "str_items i (PyStr s # vs) =
     (case str_items (Suc i) vs of Inl e \<Rightarrow> Inl e | Inr ss \<Rightarrow> Inr (s # ss))"
| "str_items i (v # vs) =
     Inl (Error (''sequence item '' @ str_nat i @ '': expected str instance, ''
                 @ type_name v @ '' found''))"

fun comma_join :: "py \<Rightarrow> string result" where
  "comma_join (PyList xs) =
     (case str_items 0 xs of Inl e \<Rightarrow> Inl e | Inr ss \<Rightarrow> Inr (join_strs ss))"
| "comma_join (PyDict d) = Inr (join_strs (map fst d))"
| "comma_join (PyStr s) = Inr (join_strs (map (\<lambda>c. [c]) s))"
| "comma_join v = Inl (Error ''can only join an iterable'')"

text \<open>\<^verbatim>\<open>a or b\<close>: \<open>b\<close> is evaluated, and may raise, only when \<open>a\<close> is falsy.\<close>

definition py_or :: "py \<Rightarrow> py result \<Rightarrow> py result" where
  "py_or a b = (if truthy a then Inr a else b)"

definition bind :: "'a result \<Rightarrow> ('a \<Rightarrow> 'b result) \<Rightarrow> 'b result" where
  "bind m f = (case m of Inl e \<Rightarrow> Inl e | Inr x \<Rightarrow> f x)"


section \<open>The world outside the process\<close>

text \<open>
  Everything \<^verbatim>\<open>main.py\<close> gets from outside is a field of the record \<open>world\<close>: the
  replies to \<^verbatim>\<open>requests.get\<close> and \<^verbatim>\<open>requests.post\<close> (\<open>Inl\<close> the message of the
  exception the call raises), \<^verbatim>\<open>str(uuid.uuid4())\<close>, the successive values of
  \<^verbatim>\<open>datetime.now().isoformat()\<close>, the interpreter's \<^verbatim>\<open>repr\<close>, and the two libraries:
  reportlab (a \<^verbatim>\<open>Paragraph\<close> may reject its markup, \<^verbatim>\<open>doc.build\<close> turns the story into
  bytes or raises) and pydantic (which may refuse a value that is not a \<^verbatim>\<open>str\<close> for a
  \<^verbatim>\<open>str\<close> field, and otherwise takes its \<^verbatim>\<open>str\<close>). Column widths and table styles
  only place the cells and are left out of the story.
\<close>

type_synonym bytes = string

record response =
  status_code :: int
  text_body :: string
  json_body :: "string + py"

datatype body = Data bytes | Json py

datatype style = title_style | section_heading_style | label_style | value_style | success_style

datatype flowable =
    Paragraph string style
  | Spacer nat nat
  | Table "flowable list list"
  | Plain string

record world =
  requests_get :: "string \<Rightarrow> (string \<times> string) list \<Rightarrow> (string \<times> py) list \<Rightarrow> string + response"
  requests_post :: "string \<Rightarrow> (string \<times> string) list \<Rightarrow> body \<Rightarrow> string + response"
  uuid4 :: string
  now_isoformat :: "nat \<Rightarrow> string"
  repr :: "py \<Rightarrow> string"
  Paragraph_error :: "string \<Rightarrow> style \<Rightarrow> string option"
  doc_build :: "flowable list \<Rightarrow> string + bytes"
  pydantic_str_error :: "py \<Rightarrow> string option"

definition raised :: "string + 'a \<Rightarrow> 'a result" where
  "raised r = (case r of Inl m \<Rightarrow> Inl (Error m) | Inr x \<Rightarrow> Inr x)"

section \<open>SupabaseClient\<close>

record SupabaseClient =
  url :: string
  key :: string
  headers :: "(string \<times> string) list"

definition SupabaseClient_init :: "string \<Rightarrow> string \<Rightarrow> SupabaseClient" where
  "SupabaseClient_init u k =
     \<lparr>url = rstrip_slash u, key = k,
      headers = [(''apikey'', k), (''Authorization'', ''Bearer '' @ k),
                 (''Content-Type'', ''application/json'')]\<rparr>"

text \<open>
  A handler's run is the list of client methods it invoked, in order, with what it
  returned or raised.
\<close>

datatype call =
    Verify_user string
  | Upload_file string string bytes
  | Insert_record string "(string \<times> py) list"
  | Select_records string "(string \<times> py) list"

type_synonym 'a io = "call list \<times> 'a result"

definition io_lift :: "'a result \<Rightarrow> 'a io" where
  "io_lift r = ([], r)"

definition io_raise :: "py_exception \<Rightarrow> 'a io" where
  "io_raise e = ([], Inl e)"

definition io_return :: "'a \<Rightarrow> 'a io" where
  "io_return x = ([], Inr x)"

definition io_bind :: "'a io \<Rightarrow> ('a \<Rightarrow> 'b io) \<Rightarrow> 'b io" where
  "io_bind m f =
     (case m of
        (t, Inl e) \<Rightarrow> (t, Inl e)
      | (t, Inr x) \<Rightarrow> (case f x of (t', r) \<Rightarrow> (t @ t', r)))"

definition verify_user :: "world \<Rightarrow> SupabaseClient \<Rightarrow> string \<Rightarrow> py io" where
  "verify_user w sb token =
     (let hdrs = [(''apikey'', key sb), (''Authorization'', ''Bearer '' @ token),
                  (''Content-Type'', ''application/json'')]
      in ([Verify_user token],
          bind (raised (requests_get w (url sb @ ''/auth/v1/user'') hdrs []))
            (\<lambda>response.
               if status_code response = 200 then raised (json_body response)
               else Inr PyNone)))"

definition upload_file :: "world \<Rightarrow> SupabaseClient \<Rightarrow> string \<Rightarrow> string \<Rightarrow> bytes \<Rightarrow> response io" where
  "upload_file w sb bucket filename file_data =
     (let upload_url = url sb @ ''/storage/v1/object/'' @ bucket @ ''/'' @ filename;
          hdrs = [(''apikey'', key sb), (''Authorization'', ''Bearer '' @ key sb),
                  (''Content-Type'', ''application/pdf'')]
      in ([Upload_file bucket filename file_data],
          raised (requests_post w upload_url hdrs (Data file_data))))"

definition get_public_url :: "SupabaseClient \<Rightarrow> string \<Rightarrow> string \<Rightarrow> string" where
  "get_public_url sb bucket filename =
     url sb @ ''/storage/v1/object/public/'' @ bucket @ ''/'' @ filename"

definition insert_record :: "world \<Rightarrow> SupabaseClient \<Rightarrow> string \<Rightarrow> (string \<times> py) list \<Rightarrow> response io" where
  "insert_record w sb table data =
     (let insert_url = url sb @ ''/rest/v1/'' @ table
      in ([Insert_record table data],
          raised (requests_post w insert_url (headers sb) (Json (PyDict data)))))"

text \<open>\<^verbatim>\<open>params[k] = v\<close>: a key already there keeps its place.\<close>

fun dict_set :: "(string \<times> py) list \<Rightarrow> string \<Rightarrow> py \<Rightarrow> (string \<times> py) list" where
  "dict_set [] k v = [(k, v)]"
| "dict_set ((k', v') # d) k v = (if k' = k then (k, v) # d else (k', v') # dict_set d k v)"

definition select_records ::
  "world \<Rightarrow> SupabaseClient \<Rightarrow> string \<Rightarrow> (string \<times> py) list option \<Rightarrow> int option \<Rightarrow> int option
     \<Rightarrow> response io" where
  "select_records w sb table filters limit offset =
     (let select_url = url sb @ ''/rest/v1/'' @ table;
          params0 = (case filters of
                       None \<Rightarrow> []
                     | Some fs \<Rightarrow>
                         fold (\<lambda>(k, v) ps. dict_set ps k (PyStr (''eq.'' @ py_str (repr w) v))) fs []);
          params1 = (case limit of
                       None \<Rightarrow> params0
                     | Some l \<Rightarrow> if l \<noteq> 0 then dict_set params0 ''limit'' (PyInt l) else params0);
          params = (case offset of
                      None \<Rightarrow> params1
                    | Some off \<Rightarrow> if off \<noteq> 0 then dict_set params1 ''offset'' (PyInt off) else params1)
      in ([Select_records table params],
          raised (requests_get w select_url (headers sb) params)))"


section \<open>generate_certificate_pdf\<close>

text \<open>The helper \<^verbatim>\<open>get_value(obj, key, default='N/A')\<close>.\<close>

definition get_value :: "world \<Rightarrow> py \<Rightarrow> string \<Rightarrow> string \<Rightarrow> string" where
  "get_value w obj k dflt =
     (case obj of
        PyDict d \<Rightarrow>
          (let val = dict_get d k (PyStr dflt)
           in if truthy val then py_str (repr w) val else dflt)
      | _ \<Rightarrow> dflt)"

definition mk_Paragraph :: "world \<Rightarrow> string \<Rightarrow> style \<Rightarrow> flowable result" where
  "mk_Paragraph w t st =
     (case Paragraph_error w t st of Some m \<Rightarrow> Inl (Error m) | None \<Rightarrow> Inr (Paragraph t st))"

text \<open>The cells of a row and the rows of a table are built from left to right and from
  top to bottom, as the list displays of the source are evaluated.\<close>

fun mk_row :: "world \<Rightarrow> (string \<times> style) list \<Rightarrow> flowable list result" where
  "mk_row w [] = Inr []"
| "mk_row w ((t, st) # cs) =
     bind (mk_Paragraph w t st) (\<lambda>p. bind (mk_row w cs) (\<lambda>ps. Inr (p # ps)))"

fun mk_rows :: "world \<Rightarrow> (string \<times> style) list list \<Rightarrow> flowable list list result" where
  "mk_rows w [] = Inr []"
| "mk_rows w (r # rs) =
     bind (mk_row w r) (\<lambda>x. bind (mk_rows w rs) (\<lambda>xs. Inr (x # xs)))"

text \<open>A titled section: the heading, the table of its rows, and the spacers after it.\<close>

definition titled_section ::
  "world \<Rightarrow> string \<Rightarrow> (string \<times> style) list list result \<Rightarrow> flowable list \<Rightarrow> flowable list result" where
  "titled_section w title cells after =
     bind (mk_Paragraph w title section_heading_style) (\<lambda>heading.
     bind cells (\<lambda>cs.
     bind (mk_rows w cs) (\<lambda>rs. Inr ([heading, Table rs] @ after))))"

definition cert_info_data :: "world \<Rightarrow> py \<Rightarrow> string \<Rightarrow> (string \<times> style) list list" where
  "cert_info_data w cert_metadata certificate_id =
       [ [(''Certificate ID:'', label_style),
         (get_value w cert_metadata ''certificate_id'' certificate_id, value_style),
         (''Generated Timestamp:'', label_style),
         (get_value w cert_metadata ''generated_timestamp'' ''N/A'', value_style)],
        [(''Version:'', label_style),
         (get_value w cert_metadata ''version'' ''N/A'', value_style),
         (''NIST Reference:'', label_style),
         (get_value w cert_metadata ''nist_reference'' ''N/A'', value_style)] ]"

definition tool_data :: "world \<Rightarrow> py \<Rightarrow> (string \<times> style) list list" where
  "tool_data w tool_info =
       [ [(''Name:'', label_style),
         (get_value w tool_info ''name'' ''N/A'', value_style),
         (''Version:'', label_style),
         (get_value w tool_info ''version'' ''N/A'', value_style)],
        [(''Method:'', label_style),
         (get_value w tool_info ''method'' ''N/A'', value_style),
         (''Technique:'', label_style),
         (get_value w tool_info ''technique'' ''N/A'', value_style)],
        [(''Verification Method:'', label_style),
         (get_value w tool_info ''verification_method'' ''N/A'', value_style),
         ([], label_style),
         ([], value_style)] ]"

definition event_data :: "world \<Rightarrow> py \<Rightarrow> (string \<times> style) list list result" where
  "event_data w sanitization_event =
     bind (py_get sanitization_event ''operator'' (PyDict [])) (\<lambda>operator. Inr
       [ [(''Timestamp:'', label_style),
         (get_value w sanitization_event ''timestamp'' ''N/A'', value_style),
         (''Status:'', label_style),
         (get_value w sanitization_event ''status'' ''N/A'', success_style)],
        [(''System User:'', label_style),
         (get_value w operator ''system_user'' ''N/A'', value_style),
         (''Hostname:'', label_style),
         (get_value w operator ''hostname'' ''N/A'', value_style)] ])"

definition media_data :: "world \<Rightarrow> py \<Rightarrow> (string \<times> style) list list" where
  "media_data w media_info =
       [ [(''Device Path:'', label_style),
         (get_value w media_info ''device_path'' ''N/A'', value_style),
         (''Manufacturer:'', label_style),
         (get_value w media_info ''manufacturer'' ''N/A'', value_style)],
        [(''Model:'', label_style),
         (get_value w media_info ''model'' ''N/A'', value_style),
         (''Serial Number:'', label_style),
         (get_value w media_info ''serial_number'' ''N/A'', value_style)],
        [(''Firmware Version:'', label_style),
         (get_value w media_info ''firmware_version'' ''N/A'', value_style),
         (''Interface Type:'', label_style),
         (get_value w media_info ''interface_type'' ''N/A'', value_style)],
        [(''Media Type:'', label_style),
         (get_value w media_info ''media_type'' ''N/A'', value_style),
         (''Device Type:'', label_style),
         (get_value w media_info ''device_type'' ''N/A'', value_style)],
        [(''Capacity (GB):'', label_style),
         (get_value w media_info ''capacity_gb'' ''N/A'', value_style),
         (''Capacity (Bytes):'', label_style),
         (get_value w media_info ''capacity_bytes'' ''N/A'', value_style)],
        [(''Pre-Sanitization Class:'', label_style),
         (get_value w media_info ''pre_sanitization_classification'' ''N/A'', value_style),
         (''Post-Sanitization Class:'', label_style),
         (get_value w media_info ''post_sanitization_classification'' ''N/A'', value_style)] ]"

definition passes_count :: "py \<Rightarrow> string result" where
  "passes_count passes =
     (if truthy passes then bind (py_len passes) (\<lambda>n. Inr (str_nat n)) else Inr ''N/A'')"

definition san_det_data :: "world \<Rightarrow> py \<Rightarrow> (string \<times> style) list list result" where
  "san_det_data w sanitization_details =
     bind (py_get sanitization_details ''passes_performed'' (PyList [])) (\<lambda>passes.
     bind (passes_count passes) (\<lambda>passes_count. Inr
       [ [(''Passes Performed:'', label_style),
         (passes_count, value_style),
         (''Verification Status:'', label_style),
         (get_value w sanitization_details ''verification_status'' ''N/A'', success_style)],
        [(''Verification Details:'', label_style),
         (get_value w sanitization_details ''verification_details'' ''N/A'', value_style),
         ([], label_style),
         ([], value_style)] ]))"

definition tools_str :: "py \<Rightarrow> string result" where
  "tools_str tools_used = (if truthy tools_used then comma_join tools_used else Inr ''N/A'')"

definition host_data :: "world \<Rightarrow> py \<Rightarrow> (string \<times> style) list list result" where
  "host_data w host_info =
     bind (py_get host_info ''tools_used'' (PyList [])) (\<lambda>tools_used.
     bind (tools_str tools_used) (\<lambda>tools_str. Inr
       [ [(''Hostname:'', label_style),
         (get_value w host_info ''hostname'' ''N/A'', value_style),
         (''Operating System:'', label_style),
         (get_value w host_info ''operating_system'' ''N/A'', value_style)],
        [(''Kernel Version:'', label_style),
         (get_value w host_info ''kernel_version'' ''N/A'', value_style),
         (''Architecture:'', label_style),
         (get_value w host_info ''architecture'' ''N/A'', value_style)],
        [(''System Manufacturer:'', label_style),
         (get_value w host_info ''system_manufacturer'' ''N/A'', value_style),
         (''System Model:'', label_style),
         (get_value w host_info ''system_model'' ''N/A'', value_style)],
        [(''System Serial:'', label_style),
         (get_value w host_info ''system_serial'' ''N/A'', value_style),
         (''Execution Environment:'', label_style),
         (get_value w host_info ''execution_environment'' ''N/A'', value_style)],
        [(''Tools Used:'', label_style),
         (tools_str, value_style),
         ([], label_style),
         ([], value_style)] ]))"

definition comp_data :: "world \<Rightarrow> py \<Rightarrow> (string \<times> style) list list" where
  "comp_data w compliance_info =
       [ [(''Standard:'', label_style),
         (get_value w compliance_info ''standard'' ''N/A'', value_style),
         (''Sanitization Method:'', label_style),
         (get_value w compliance_info ''sanitization_method'' ''N/A'', value_style)],
        [(''Residual Risk Assessment:'', label_style),
         (get_value w compliance_info ''residual_risk_assessment'' ''N/A'', value_style),
         (''Recommended Follow-up:'', label_style),
         (get_value w compliance_info ''recommended_follow_up'' ''N/A'', value_style)] ]"

definition certificate_story :: "world \<Rightarrow> (string \<times> py) list \<Rightarrow> string \<Rightarrow> flowable list result" where
  "certificate_story w data certificate_id =
     bind (mk_Paragraph w ''Media Sanitization Certificate'' title_style) (\<lambda>title.
     let line_table = Table [ [Plain [] ] ];
         cert_metadata = dict_get data ''certificate_metadata'' (PyDict []);
         tool_info = dict_get data ''tool_information'' (PyDict []);
         sanitization_event = dict_get data ''sanitization_event'' (PyDict []);
         media_info = dict_get data ''media_information'' (PyDict []);
         sanitization_details = dict_get data ''sanitization_details'' (PyDict []);
         host_info = dict_get data ''host_system_information'' (PyDict []);
         compliance_info = dict_get data ''compliance_information'' (PyDict [])
     in
     bind (titled_section w ''Certificate Information''
             (Inr (cert_info_data w cert_metadata certificate_id)) [Spacer 1 12]) (\<lambda>s1.
     bind (titled_section w ''Tool Information''
             (Inr (tool_data w tool_info)) [Spacer 1 12]) (\<lambda>s2.
     bind (titled_section w ''Sanitization Event''
             (event_data w sanitization_event) [Spacer 1 12]) (\<lambda>s3.
     bind (titled_section w ''Media Information''
             (Inr (media_data w media_info)) [Spacer 1 12]) (\<lambda>s4.
     bind (titled_section w ''Sanitization Details''
             (san_det_data w sanitization_details) [Spacer 1 12]) (\<lambda>s5.
     bind (titled_section w ''Host System Information''
             (host_data w host_info) [Spacer 1 12]) (\<lambda>s6.
     bind (titled_section w ''Compliance Information''
             (Inr (comp_data w compliance_info)) []) (\<lambda>s7.
     Inr ([title, Spacer 1 10, line_table, Spacer 1 15]
          @ s1 @ s2 @ s3 @ s4 @ s5 @ s6 @ s7)))))))))"

definition generate_certificate_pdf ::
  "world \<Rightarrow> (string \<times> py) list \<Rightarrow> string \<Rightarrow> py \<Rightarrow> bytes result" where
  "generate_certificate_pdf w data certificate_id user_email =
     bind (certificate_story w data certificate_id) (\<lambda>story. raised (doc_build w story))"


section \<open>The endpoints\<close>

subsection \<open>Field resolution in generate_certificate\<close>

text \<open>
  The chains \<^verbatim>\<open>data.get(k) or data.get(section, {}).get(k') or placeholder\<close> of the
  handler, one definition for each; the last five have no placeholder in the source.
\<close>

definition device_model_of :: "(string \<times> py) list \<Rightarrow> py result" where
  "device_model_of data =
     py_or (dict_get data ''model'' PyNone)
       (bind (py_get (dict_get data ''media_information'' (PyDict [])) ''model'' PyNone)
          (\<lambda>nested. py_or nested (Inr (PyStr ''Unknown_Device''))))"

definition manufacturer_of :: "(string \<times> py) list \<Rightarrow> py result" where
  "manufacturer_of data =
     py_or (dict_get data ''manufacturer'' PyNone)
       (bind (py_get (dict_get data ''media_information'' (PyDict [])) ''manufacturer'' PyNone)
          (\<lambda>nested. py_or nested (Inr (PyStr ''Unknown''))))"

definition serial_number_of :: "(string \<times> py) list \<Rightarrow> py result" where
  "serial_number_of data =
     py_or (dict_get data ''serial_number'' PyNone)
       (bind (py_get (dict_get data ''media_information'' (PyDict [])) ''serial_number'' PyNone)
          (\<lambda>nested. py_or nested (Inr (PyStr ''Unknown''))))"

definition media_type_of :: "(string \<times> py) list \<Rightarrow> py result" where
  "media_type_of data =
     py_or (dict_get data ''media_type'' PyNone)
       (py_get (dict_get data ''media_information'' (PyDict [])) ''media_type'' PyNone)"

definition sanitization_method_of :: "(string \<times> py) list \<Rightarrow> py result" where
  "sanitization_method_of data =
     py_or (dict_get data ''sanitization_method'' PyNone)
       (py_get (dict_get data ''tool_information'' (PyDict [])) ''method'' PyNone)"

definition sanitization_technique_of :: "(string \<times> py) list \<Rightarrow> py result" where
  "sanitization_technique_of data =
     py_or (dict_get data ''sanitization_technique'' PyNone)
       (py_get (dict_get data ''tool_information'' (PyDict [])) ''technique'' PyNone)"

definition tool_used_of :: "(string \<times> py) list \<Rightarrow> py result" where
  "tool_used_of data =
     py_or (dict_get data ''tool_used'' PyNone)
       (py_get (dict_get data ''tool_information'' (PyDict [])) ''name'' PyNone)"

definition verification_method_of :: "(string \<times> py) list \<Rightarrow> py result" where
  "verification_method_of data =
     py_or (dict_get data ''verification_method'' PyNone)
       (py_get (dict_get data ''tool_information'' (PyDict [])) ''verification_method'' PyNone)"


text \<open>The record sent to the table \<^verbatim>\<open>certificates\<close>; its values are evaluated in the
  order of the dict display.\<close>

definition certificate_data ::
  "world \<Rightarrow> (string \<times> py) list \<Rightarrow> string \<Rightarrow> py \<Rightarrow> py \<Rightarrow> py \<Rightarrow> py \<Rightarrow> py \<Rightarrow> string
     \<Rightarrow> (string \<times> py) list result" where
  "certificate_data w data certificate_id user_id user_email manufacturer device_model
       serial_number pdf_url =
     bind (media_type_of data) (\<lambda>media_type.
     bind (sanitization_method_of data) (\<lambda>sanitization_method.
     bind (sanitization_technique_of data) (\<lambda>sanitization_technique.
     bind (tool_used_of data) (\<lambda>tool_used.
     bind (verification_method_of data) (\<lambda>verification_method.
     Inr [(''certificate_id'', PyStr certificate_id),
          (''user_id'', user_id),
          (''user_email'', user_email),
          (''manufacturer'', manufacturer),
          (''model'', device_model),
          (''serial_number'', serial_number),
          (''property_number'', dict_get data ''property_number'' PyNone),
          (''media_type'', media_type),
          (''media_source'', dict_get data ''media_source'' PyNone),
          (''pre_sanitization_confidentiality'',
             dict_get data ''pre_sanitization_confidentiality'' PyNone),
          (''sanitization_method'', sanitization_method),
          (''sanitization_technique'', sanitization_technique),
          (''tool_used'', tool_used),
          (''verification_method'', verification_method),
          (''post_sanitization_confidentiality'',
             dict_get data ''post_sanitization_confidentiality'' PyNone),
          (''post_sanitization_destination'',
             dict_get data ''post_sanitization_destination'' PyNone),
          (''certificate_metadata'', dict_get data ''certificate_metadata'' PyNone),
          (''tool_information'', dict_get data ''tool_information'' PyNone),
          (''sanitization_event'', dict_get data ''sanitization_event'' PyNone),
          (''media_information'', dict_get data ''media_information'' PyNone),
          (''sanitization_details'', dict_get data ''sanitization_details'' PyNone),
          (''host_system_information'', dict_get data ''host_system_information'' PyNone),
          (''compliance_information'', dict_get data ''compliance_information'' PyNone),
          (''pdf_url'', PyStr pdf_url),
          (''created_at'', PyStr (now_isoformat w 0))])))))"

text \<open>The name of the stored file:
  \<^verbatim>\<open>safe_model = device_model.replace(" ", "_").replace("/", "_")\<close> and
  \<^verbatim>\<open>filename = f"cert_{user_id}_{safe_model}_{certificate_id}.pdf"\<close>.\<close>

definition safe_model :: "string \<Rightarrow> string" where
  "safe_model dm = replace (replace dm '' '' ''_'') ''/'' ''_''"

definition filename :: "world \<Rightarrow> py \<Rightarrow> string \<Rightarrow> string \<Rightarrow> string" where
  "filename w uid sm cid =
     ''cert_'' @ py_str (repr w) uid @ ''_'' @ sm @ ''_'' @ cid @ ''.pdf''"

subsection \<open>Shared steps\<close>

text \<open>\<^verbatim>\<open>data.keys()\<close>: the body has to be a dict.\<close>

definition py_keys :: "py \<Rightarrow> (string \<times> py) list result" where
  "py_keys data = (case data of PyDict d \<Rightarrow> Inr d | _ \<Rightarrow> Inl (AttributeError data ''keys''))"

text \<open>A \<^verbatim>\<open>str\<close> field of a pydantic model.\<close>

definition pydantic_str :: "world \<Rightarrow> py \<Rightarrow> string result" where
  "pydantic_str w v =
     (case v of
        PyStr s \<Rightarrow> Inr s
      | _ \<Rightarrow> (case pydantic_str_error w v of
                Some m \<Rightarrow> Inl (Error m)
              | None \<Rightarrow> Inr (py_str (repr w) v)))"

text \<open>\<^verbatim>\<open>except HTTPException: raise\<close> and
  \<^verbatim>\<open>except Exception as e: raise HTTPException(status_code=code, detail=str(e))\<close>.\<close>

definition except_Exception :: "nat \<Rightarrow> 'a io \<Rightarrow> 'a io" where
  "except_Exception code m =
     (case m of
        (t, Inl (Error msg)) \<Rightarrow> (t, Inl (HTTPException code msg))
      | (t, r) \<Rightarrow> (t, r))"

text \<open>The authentication every protected handler starts with; \<open>missing\<close> and \<open>invalid\<close>
  are the two details, which differ between the handlers.\<close>

definition authenticate ::
  "world \<Rightarrow> SupabaseClient \<Rightarrow> string option \<Rightarrow> string \<Rightarrow> string \<Rightarrow> py io" where
  "authenticate w sb authorization missing invalid =
     (case authorization of
        None \<Rightarrow> io_raise (HTTPException 401 missing)
      | Some a \<Rightarrow>
          if a = [] \<or> \<not> prefix ''Bearer '' a then io_raise (HTTPException 401 missing)
          else
            (let token = replace a ''Bearer '' []
             in io_bind (verify_user w sb token) (\<lambda>user_info.
                  if \<not> truthy user_info then io_raise (HTTPException 401 invalid)
                  else io_return user_info)))"

subsection \<open>POST /generate-certificate\<close>

record CertificateResponse =
  certificate_id :: string
  pdf_url :: string
  created_at :: string
  user_id :: string
  device_model :: string
  message :: string

text \<open>
  The handler in three parts, cut where it calls the storage and the database:
  \<open>generate_certificate_try\<close> up to the device model, \<open>store_certificate\<close> from the file
  name to the upload, \<open>save_certificate\<close> from the public URL to the response.
\<close>

definition save_certificate ::
  "world \<Rightarrow> SupabaseClient \<Rightarrow> (string \<times> py) list \<Rightarrow> py \<Rightarrow> py \<Rightarrow> string \<Rightarrow> string \<Rightarrow> string
     \<Rightarrow> CertificateResponse io" where
  "save_certificate w sb data uid user_email cid dm url' =
     io_bind (io_lift (manufacturer_of data)) (\<lambda>manufacturer.
     io_bind (io_lift (serial_number_of data)) (\<lambda>serial_number.
     io_bind (io_lift (certificate_data w data cid uid user_email manufacturer (PyStr dm)
                         serial_number url')) (\<lambda>record.
     io_bind (insert_record w sb ''certificates'' record) (\<lambda>db_response.
     if status_code db_response \<notin> {200, 201}
     then io_raise (HTTPException 500 (''Database save failed: '' @ text_body db_response))
     else
       io_bind (io_lift (pydantic_str w uid)) (\<lambda>uid_str.
       io_return
         \<lparr>certificate_id = cid,
          pdf_url = url',
          created_at = now_isoformat w 1,
          user_id = uid_str,
          device_model = dm,
          message = ''Certificate generated successfully''\<rparr>)))))"

definition store_certificate ::
  "world \<Rightarrow> SupabaseClient \<Rightarrow> (string \<times> py) list \<Rightarrow> py \<Rightarrow> py \<Rightarrow> string \<Rightarrow> bytes \<Rightarrow> string
     \<Rightarrow> CertificateResponse io" where
  "store_certificate w sb data uid user_email cid pdf_bytes dm =
     (let fn = filename w uid (safe_model dm) cid
      in
      io_bind (upload_file w sb ''certificates'' fn pdf_bytes) (\<lambda>upload_response.
      if status_code upload_response \<notin> {200, 201}
      then io_raise (HTTPException 500 (''Upload failed: '' @ text_body upload_response))
      else save_certificate w sb data uid user_email cid dm
             (get_public_url sb ''certificates'' fn)))"

text \<open>The body of the \<^verbatim>\<open>try\<close>; \<open>request\<close> is what \<^verbatim>\<open>await request.json()\<close> returns or
  raises.\<close>

definition generate_certificate_try ::
  "world \<Rightarrow> SupabaseClient \<Rightarrow> string + py \<Rightarrow> string option \<Rightarrow> CertificateResponse io" where
  "generate_certificate_try w sb request authorization =
     io_bind (authenticate w sb authorization ''Missing or invalid authorization header''
                ''Invalid authentication token'') (\<lambda>user_info.
     io_bind (io_lift (getitem_str user_info ''id'')) (\<lambda>uid.
     io_bind (io_lift (py_get user_info ''email'' (PyStr ''unknown@example.com''))) (\<lambda>user_email.
     io_bind (io_lift (raised request)) (\<lambda>body.
     io_bind (io_lift (py_keys body)) (\<lambda>data.
     let cid = uuid4 w in
     io_bind (io_lift (generate_certificate_pdf w data cid user_email)) (\<lambda>pdf_bytes.
     io_bind (io_lift (device_model_of data)) (\<lambda>dm.
     case dm of
       PyStr s \<Rightarrow> store_certificate w sb data uid user_email cid pdf_bytes s
     | _ \<Rightarrow> io_raise (AttributeError dm ''replace''))))))))"

definition generate_certificate ::
  "world \<Rightarrow> SupabaseClient \<Rightarrow> string + py \<Rightarrow> string option \<Rightarrow> CertificateResponse io" where
  "generate_certificate w sb request authorization =
     except_Exception 500 (generate_certificate_try w sb request authorization)"

subsection \<open>GET /my-certificates\<close>

definition get_my_certificates_try ::
  "world \<Rightarrow> SupabaseClient \<Rightarrow> string option \<Rightarrow> int \<Rightarrow> int \<Rightarrow> py io" where
  "get_my_certificates_try w sb authorization limit offset =
     io_bind (authenticate w sb authorization ''Missing authorization header''
                ''Invalid token'') (\<lambda>user_info.
     io_bind (io_lift (getitem_str user_info ''id'')) (\<lambda>uid.
     io_bind (select_records w sb ''certificates'' (Some [(''user_id'', uid)])
                (Some limit) (Some offset)) (\<lambda>response.
     if status_code response \<noteq> 200 then io_raise (HTTPException 500 ''Database error'')
     else
       io_bind (io_lift (raised (json_body response))) (\<lambda>data.
       io_bind (io_lift (py_len data)) (\<lambda>n.
       io_return (PyDict [(''user_id'', uid), (''certificates'', data),
                          (''count'', PyInt (int n))]))))))"

definition get_my_certificates ::
  "world \<Rightarrow> SupabaseClient \<Rightarrow> string option \<Rightarrow> int \<Rightarrow> int \<Rightarrow> py io" where
  "get_my_certificates w sb authorization limit offset =
     except_Exception 500 (get_my_certificates_try w sb authorization limit offset)"

subsection \<open>GET /certificates-by-device/{model}\<close>

definition get_certificates_by_device_try ::
  "world \<Rightarrow> SupabaseClient \<Rightarrow> string \<Rightarrow> string option \<Rightarrow> py io" where
  "get_certificates_by_device_try w sb model authorization =
     io_bind (authenticate w sb authorization ''Missing authorization header''
                ''Invalid token'') (\<lambda>user_info.
     io_bind (io_lift (getitem_str user_info ''id'')) (\<lambda>uid.
     io_bind (select_records w sb ''certificates''
                (Some [(''user_id'', uid), (''model'', PyStr model)]) None None) (\<lambda>response.
     if status_code response \<noteq> 200 then io_raise (HTTPException 500 ''Database error'')
     else
       io_bind (io_lift (raised (json_body response))) (\<lambda>data.
       if \<not> truthy data then io_raise (HTTPException 404 ''No certificates found'')
       else
         io_bind (io_lift (getitem_0 data)) (\<lambda>first.
         io_bind (io_lift (py_get first ''manufacturer'' (PyStr ''Unknown''))) (\<lambda>manufacturer.
         io_bind (io_lift (py_len data)) (\<lambda>n.
         io_return (PyDict [(''device_model'', PyStr model), (''manufacturer'', manufacturer),
                            (''total_certificates'', PyInt (int n)),
                            (''certificates'', data)]))))))))"

definition get_certificates_by_device ::
  "world \<Rightarrow> SupabaseClient \<Rightarrow> string \<Rightarrow> string option \<Rightarrow> py io" where
  "get_certificates_by_device w sb model authorization =
     except_Exception 500 (get_certificates_by_device_try w sb model authorization)"

subsection \<open>GET /, GET /health and GET /user-info\<close>

definition root :: "py io" where
  "root = io_return (PyDict [(''message'', PyStr ''Media Sanitization Certificate API''),
                             (''version'', PyStr ''2.0.0''), (''status'', PyStr ''running'')])"

definition health_check :: "world \<Rightarrow> py io" where
  "health_check w = io_return (PyDict [(''status'', PyStr ''healthy''),
                                       (''timestamp'', PyStr (now_isoformat w 0))])"

definition get_user_info_try :: "world \<Rightarrow> SupabaseClient \<Rightarrow> string option \<Rightarrow> py io" where
  "get_user_info_try w sb authorization =
     io_bind (authenticate w sb authorization ''Missing authorization header''
                ''Invalid token'') (\<lambda>user_info.
     io_bind (io_lift (getitem_str user_info ''id'')) (\<lambda>uid.
     io_bind (io_lift (py_get user_info ''email'' PyNone)) (\<lambda>email.
     io_return (PyDict [(''user_id'', uid), (''email'', email),
                        (''authenticated'', PyBool True)]))))"

definition get_user_info :: "world \<Rightarrow> SupabaseClient \<Rightarrow> string option \<Rightarrow> py io" where
  "get_user_info w sb authorization =
     except_Exception 401 (get_user_info_try w sb authorization)"


section \<open>Concrete worlds\<close>

text \<open>
  A client and worlds to run the handlers in: the identity provider, the storage, the
  table insert and the table select each answer with one fixed reply.
\<close>

definition demo_client :: SupabaseClient where
  "demo_client = SupabaseClient_init ''https://demo.supabase.co/'' ''service-key''"

definition demo_world :: "response \<Rightarrow> response \<Rightarrow> response \<Rightarrow> response \<Rightarrow> world" where
  "demo_world idp up ins sel =
     \<lparr>requests_get = (\<lambda>u h p. if u = ''https://demo.supabase.co/auth/v1/user''
                               then Inr idp else Inr sel),
      requests_post = (\<lambda>u h b. case b of Data _ \<Rightarrow> Inr up | Json _ \<Rightarrow> Inr ins),
      uuid4 = ''1b4e28ba-2fa1-41d2-883f-0016d3cca427'',
      now_isoformat = (\<lambda>n. ''2024-05-01T10:00:0'' @ str_nat n),
      repr = (\<lambda>v. ''...''),
      Paragraph_error = (\<lambda>t st. None),
      doc_build = (\<lambda>story. Inr ''%PDF-1.4''),
      pydantic_str_error = (\<lambda>v. Some ''Input should be a valid string'')\<rparr>"

definition reply :: "int \<Rightarrow> string \<Rightarrow> string + py \<Rightarrow> response" where
  "reply code txt js = \<lparr>status_code = code, text_body = txt, json_body = js\<rparr>"

definition user_reply :: response where
  "user_reply = reply 200 ''{...}''
     (Inr (PyDict [(''id'', PyStr ''u-1''), (''email'', PyStr ''op@example.com'')]))"

definition scenario :: "(string \<times> py) list" where
  "scenario = [(''media_information'', PyDict [(''model'', PyStr ''SSD-500'')]),
               (''manufacturer'', PyStr ''Acme'')]"

definition w403 :: world where
  "w403 = demo_world user_reply (reply 403 ''Forbidden'' (Inl ''no json''))
            (reply 201 [] (Inl ''no json'')) (reply 200 ''[]'' (Inr (PyList [])))"

definition w_ok :: world where
  "w_ok = demo_world user_reply (reply 200 ''ok'' (Inl ''no json''))
            (reply 201 [] (Inl ''no json'')) (reply 200 ''[]'' (Inr (PyList [])))"

definition w401 :: world where
  "w401 = demo_world (reply 401 ''invalid JWT'' (Inr (PyDict [(''msg'', PyStr ''invalid JWT'')])))
            (reply 200 ''ok'' (Inl ''no json''))
            (reply 201 [] (Inl ''no json'')) (reply 200 ''[]'' (Inr (PyList [])))"

definition w409 :: world where
  "w409 = demo_world user_reply (reply 200 ''ok'' (Inl ''no json''))
            (reply 409 ''duplicate key'' (Inl ''no json'')) (reply 200 ''[]'' (Inr (PyList [])))"

definition w_quota :: world where
  "w_quota = demo_world user_reply (reply 200 ''ok'' (Inl ''no json''))
               (reply 201 [] (Inl ''no json''))
               (reply 500 ''quota exceeded'' (Inl ''no json''))"

definition w_noid :: world where
  "w_noid = demo_world (reply 200 ''{...}'' (Inr (PyDict [(''email'', PyStr ''op@example.com'')])))
              (reply 200 ''ok'' (Inl ''no json''))
              (reply 201 [] (Inl ''no json'')) (reply 200 ''[]'' (Inr (PyList [])))"

definition scenario_space :: "(string \<times> py) list" where
  "scenario_space = [(''model'', PyStr ''SSD 500'')]"

definition scenario_slash :: "(string \<times> py) list" where
  "scenario_slash = [(''model'', PyStr ''SSD/500''), (''manufacturer'', PyStr ''Acme'')]"

definition falsy_media :: "(string \<times> py) list" where
  "falsy_media = [(''model'', PyInt 0), (''serial_number'', PyNone), (''device_path'', PyStr []),
                  (''capacity_gb'', PyBool False), (''media_type'', PyList [])]"

definition falsy_input :: "(string \<times> py) list" where
  "falsy_input = [(''model'', PyStr []), (''media_information'', PyDict falsy_media)]"

section \<open>Runs of the handlers\<close>

text \<open>
  How a run can go: which exceptions the steps raise, and where the trace of a handler
  can stop. The claims are settled from these facts.
\<close>

lemmas py_defs = sq_def AttributeError_def not_subscriptable_def has_no_len_def dict_get_def
  str_int_def replace_def rstrip_slash_def py_or_def bind_def raised_def

lemmas client_defs = SupabaseClient_init_def io_lift_def io_raise_def io_return_def io_bind_def
  verify_user_def upload_file_def get_public_url_def insert_record_def select_records_def

lemmas pdf_defs = get_value_def mk_Paragraph_def titled_section_def cert_info_data_def
  tool_data_def event_data_def media_data_def passes_count_def san_det_data_def tools_str_def
  host_data_def comp_data_def certificate_story_def generate_certificate_pdf_def

lemmas handler_defs = device_model_of_def manufacturer_of_def serial_number_of_def
  media_type_of_def sanitization_method_of_def sanitization_technique_of_def tool_used_of_def
  verification_method_of_def certificate_data_def safe_model_def filename_def py_keys_def
  pydantic_str_def except_Exception_def authenticate_def save_certificate_def
  store_certificate_def generate_certificate_try_def generate_certificate_def
  get_my_certificates_try_def get_my_certificates_def get_certificates_by_device_try_def
  get_certificates_by_device_def root_def health_check_def get_user_info_try_def
  get_user_info_def

lemmas demo_defs = demo_client_def demo_world_def reply_def user_reply_def scenario_def
  w403_def w_ok_def
  w401_def
  w409_def w_quota_def
  w_noid_def
  scenario_space_def scenario_slash_def
  falsy_media_def falsy_input_def

lemma io_lift_eq [simp]: "io_lift r = (t, x) \<longleftrightarrow> t = [] \<and> r = x"
  by (auto simp add: io_lift_def)

lemma io_raise_eq [simp]: "io_raise e = (t, x) \<longleftrightarrow> t = [] \<and> x = Inl e"
  by (auto simp add: io_raise_def)

lemma io_return_eq [simp]: "io_return v = (t, x) \<longleftrightarrow> t = [] \<and> x = Inr v"
  by (auto simp add: io_return_def)

lemma io_bindE:
  assumes "io_bind m f = (t, res)"
  obtains (fail) e where "m = (t, Inl e)" and "res = Inl e"
  | (ok) t1 x t2 where "m = (t1, Inr x)" and "f x = (t2, res)" and "t = t1 @ t2"
  using assms
  by (cases m; cases "snd m") (auto simp add: io_bind_def split: prod.splits)

lemma io_bind_Inl: "m = (t, Inl e) \<Longrightarrow> io_bind m f = (t, Inl e)"
  by (simp add: io_bind_def)

lemma io_bind_Inr: "m = (t1, Inr x) \<Longrightarrow> f x = (t2, res) \<Longrightarrow> io_bind m f = (t1 @ t2, res)"
  by (simp add: io_bind_def)

lemma except_HTTP:
  "m = (t, Inl (HTTPException c d)) \<Longrightarrow> except_Exception k m = (t, Inl (HTTPException c d))"
  by (simp add: except_Exception_def)

lemma except_Error:
  "m = (t, Inl (Error msg)) \<Longrightarrow> except_Exception k m = (t, Inl (HTTPException k msg))"
  by (simp add: except_Exception_def)

lemma except_Inr: "m = (t, Inr x) \<Longrightarrow> except_Exception k m = (t, Inr x)"
  by (simp add: except_Exception_def)

lemma verify_user_trace: "fst (verify_user w sb token) = [Verify_user token]"
  by (simp add: verify_user_def Let_def)

lemma verify_user_not_HTTP: "snd (verify_user w sb token) \<noteq> Inl (HTTPException c d)"
  by (auto simp add: verify_user_def Let_def bind_def raised_def split: sum.splits)

lemma authenticate_cases:
  assumes "authenticate w sb authorization missing invalid = (t, res)"
  obtains (missing) "t = []" and "res = Inl (HTTPException 401 missing)"
  | (invalid) tok where "t = [Verify_user tok]" and "res = Inl (HTTPException 401 invalid)"
  | (raised) tok m where "t = [Verify_user tok]" and "res = Inl (Error m)"
  | (valid) tok user_info where "t = [Verify_user tok]" and "res = Inr user_info"
      and "truthy user_info"
proof (cases authorization)
  case None
  with assms that(1) show ?thesis by (simp add: authenticate_def)
next
  case (Some a)
  show ?thesis
  proof (cases "a = [] \<or> \<not> prefix ''Bearer '' a")
    case True
    with assms Some that(1) show ?thesis by (simp add: authenticate_def)
  next
    case False
    define tok where "tok = replace a ''Bearer '' []"
    from assms Some False
    have run: "io_bind (verify_user w sb tok)
                 (\<lambda>user_info. if \<not> truthy user_info then io_raise (HTTPException 401 invalid)
                               else io_return user_info) = (t, res)"
      by (simp add: authenticate_def Let_def tok_def)
    from run show ?thesis
    proof (cases rule: io_bindE)
      case (fail e)
      from fail(1) have t: "t = [Verify_user tok]"
        using verify_user_trace [of w sb tok] by simp
      from fail(1) have "e \<noteq> HTTPException 401 invalid \<Longrightarrow> \<exists>m. e = Error m"
        using verify_user_not_HTTP [of w sb tok] by (cases e) auto
      with t fail(2) that(2,3) show ?thesis by (cases e) auto
    next
      case (ok t1 x t2)
      from ok(1) have t1: "t1 = [Verify_user tok]"
        using verify_user_trace [of w sb tok] by simp
      with ok that(2,4) show ?thesis by (cases "truthy x") auto
    qed
  qed
qed


lemma insert_record_trace: "fst (insert_record w sb table rec) = [Insert_record table rec]"
  by (simp add: insert_record_def Let_def)

lemma upload_file_trace:
  "fst (upload_file w sb bucket fn pdf) = [Upload_file bucket fn pdf]"
  by (simp add: upload_file_def Let_def)

lemma raised_not_HTTP: "raised r \<noteq> Inl (HTTPException c d)"
  by (simp add: raised_def split: sum.splits)

lemma upload_file_not_HTTP: "snd (upload_file w sb bucket fn pdf) \<noteq> Inl (HTTPException c d)"
  by (simp add: upload_file_def Let_def raised_not_HTTP)

lemma insert_record_not_HTTP: "snd (insert_record w sb table rec) \<noteq> Inl (HTTPException c d)"
  by (simp add: insert_record_def Let_def raised_not_HTTP)


lemma py_get_Error: "py_get v k dflt = Inl e \<Longrightarrow> \<exists>m. e = Error m"
  by (cases v) (auto simp add: AttributeError_def)

lemma chain2_Error:
  "py_or a (py_get s k PyNone) = Inl e \<Longrightarrow> \<exists>m. e = Error m"
  by (auto simp add: py_or_def dest: py_get_Error split: if_splits)

lemma chain3_Error:
  "py_or a (bind (py_get s k PyNone) (\<lambda>nested. py_or nested (Inr p))) = Inl e
     \<Longrightarrow> \<exists>m. e = Error m"
  by (auto simp add: py_or_def bind_def dest: py_get_Error split: if_splits sum.splits)


lemma resolve_Error:
  assumes "device_model_of data = Inl e \<or> manufacturer_of data = Inl e
     \<or> serial_number_of data = Inl e \<or> media_type_of data = Inl e
     \<or> sanitization_method_of data = Inl e \<or> sanitization_technique_of data = Inl e
     \<or> tool_used_of data = Inl e \<or> verification_method_of data = Inl e"
  shows "\<exists>m. e = Error m"
  using assms
  unfolding device_model_of_def manufacturer_of_def serial_number_of_def media_type_of_def
    sanitization_method_of_def sanitization_technique_of_def tool_used_of_def
    verification_method_of_def
  by (elim disjE) (erule chain3_Error chain2_Error)+

lemma bind_Inl_iff:
  "bind m f = Inl e \<longleftrightarrow> m = Inl e \<or> (\<exists>x. m = Inr x \<and> f x = Inl e)"
  by (cases m) (simp_all add: bind_def)

lemma bind_Inr_iff:
  "bind m f = Inr y \<longleftrightarrow> (\<exists>x. m = Inr x \<and> f x = Inr y)"
  by (cases m) (simp_all add: bind_def)

lemma certificate_data_Error:
  assumes "certificate_data w data cid uid em man dm ser u = Inl e"
  shows "\<exists>m. e = Error m"
  using assms resolve_Error [of data e]
  by (auto simp add: certificate_data_def bind_Inl_iff)

lemma pydantic_str_Error: "pydantic_str w v = Inl e \<Longrightarrow> \<exists>m. e = Error m"
  by (auto simp add: pydantic_str_def split: py.splits option.splits)

lemma save_certificate_cases:
  assumes "save_certificate w sb data uid user_email cid dm u = (t, res)"
  obtains (unprepared) m where "t = []" and "res = Inl (Error m)"
  | (inserted) manufacturer serial_number rec r where
      "manufacturer_of data = Inr manufacturer"
      and "serial_number_of data = Inr serial_number"
      and "certificate_data w data cid uid user_email manufacturer (PyStr dm) serial_number u
             = Inr rec"
      and "insert_record w sb ''certificates'' rec = (t, r)"
      and "t = [Insert_record ''certificates'' rec]"
      and "res = (case r of
                    Inl e \<Rightarrow> Inl e
                  | Inr db_response \<Rightarrow>
                      if status_code db_response \<notin> {200, 201}
                      then Inl (HTTPException 500
                                  (''Database save failed: '' @ text_body db_response))
                      else (case pydantic_str w uid of
                              Inl e \<Rightarrow> Inl e
                            | Inr uid_str \<Rightarrow>
                                Inr \<lparr>certificate_id = cid, pdf_url = u,
                                     created_at = now_isoformat w 1, user_id = uid_str,
                                     device_model = dm,
                                     message = ''Certificate generated successfully''\<rparr>))"
proof -
  from assms show ?thesis
    unfolding save_certificate_def
  proof (cases rule: io_bindE)
    case (fail e)
    then show ?thesis using resolve_Error [of data e] that(1) by auto
  next
    case man: (ok t1 manufacturer t2)
    from man(2) show ?thesis
    proof (cases rule: io_bindE)
      case (fail e)
      then show ?thesis using resolve_Error [of data e] that(1) man by auto
    next
      case ser: (ok t3 serial_number t4)
      from ser(2) show ?thesis
      proof (cases rule: io_bindE)
        case (fail e)
        then show ?thesis using certificate_data_Error that(1) man ser by fastforce
      next
        case rec: (ok t5 rec t6)
        have tr: "fst (insert_record w sb ''certificates'' rec) = [Insert_record ''certificates'' rec]"
          by (rule insert_record_trace)
        from man(1,3) ser(1,3) rec(1,3) have t: "t = t6" by simp
        from rec(2) show ?thesis
        proof (cases rule: io_bindE)
          case (fail e)
          with tr t man(1) ser(1) rec(1) that(2) [of manufacturer serial_number rec "Inl e"]
          show ?thesis by simp
        next
          case ins: (ok t7 db_response t8)
          show ?thesis
          proof (cases "status_code db_response \<notin> {200, 201}")
            case True
            with ins tr t man(1) ser(1) rec(1)
              that(2) [of manufacturer serial_number rec "Inr db_response"]
            show ?thesis by simp
          next
            case False
            with ins(2) have
              "io_bind (io_lift (pydantic_str w uid)) (\<lambda>uid_str. io_return
                 \<lparr>certificate_id = cid, pdf_url = u,
                  created_at = now_isoformat w 1, user_id = uid_str,
                  device_model = dm,
                  message = ''Certificate generated successfully''\<rparr>) = (t8, res)"
              by (simp only: if_False)
            then show ?thesis
            proof (cases rule: io_bindE)
              case (fail e)
              with False ins tr t man(1) ser(1) rec(1)
                that(2) [of manufacturer serial_number rec "Inr db_response"]
              show ?thesis by simp
            next
              case (ok t9 uid_str t10)
              with False ins tr t man(1) ser(1) rec(1)
                that(2) [of manufacturer serial_number rec "Inr db_response"]
              show ?thesis by simp
            qed
          qed
        qed
      qed
    qed
  qed
qed


lemma raised_Error: "raised r = Inl e \<Longrightarrow> \<exists>m. e = Error m"
  by (cases r) (auto simp add: raised_def)

lemma getitem_str_Error: "getitem_str v k = Inl e \<Longrightarrow> \<exists>m. e = Error m"
  by (cases v) (auto simp add: not_subscriptable_def split: option.splits)

lemma getitem_0_Error: "getitem_0 v = Inl e \<Longrightarrow> \<exists>m. e = Error m"
  by (cases v) (auto simp add: not_subscriptable_def split: list.splits)

lemma py_len_Error: "py_len v = Inl e \<Longrightarrow> \<exists>m. e = Error m"
  by (cases v) (auto simp add: has_no_len_def)

lemma py_keys_Error: "py_keys v = Inl e \<Longrightarrow> \<exists>m. e = Error m"
  by (cases v) (auto simp add: py_keys_def AttributeError_def)

lemma py_keys_Inr: "py_keys v = Inr d \<longleftrightarrow> v = PyDict d"
  by (cases v) (auto simp add: py_keys_def)

lemma mk_Paragraph_Error: "mk_Paragraph w t st = Inl e \<Longrightarrow> \<exists>m. e = Error m"
  by (auto simp add: mk_Paragraph_def split: option.splits)

lemma mk_row_Error: "mk_row w cs = Inl e \<Longrightarrow> \<exists>m. e = Error m"
  by (induction cs) (auto simp add: bind_Inl_iff dest: mk_Paragraph_Error)

lemma mk_rows_Error: "mk_rows w rs = Inl e \<Longrightarrow> \<exists>m. e = Error m"
  by (induction rs) (auto simp add: bind_Inl_iff dest: mk_row_Error)

lemma titled_section_Error:
  assumes "titled_section w title cells after = Inl e"
    and "\<And>e'. cells = Inl e' \<Longrightarrow> \<exists>m. e' = Error m"
  shows "\<exists>m. e = Error m"
  using assms
  by (auto simp add: titled_section_def bind_Inl_iff
      dest: mk_Paragraph_Error mk_rows_Error)

lemma str_items_Error: "str_items i vs = Inl e \<Longrightarrow> \<exists>m. e = Error m"
  by (induction i vs rule: str_items.induct) (auto split: sum.splits)

lemma comma_join_Error: "comma_join v = Inl e \<Longrightarrow> \<exists>m. e = Error m"
  by (cases v) (auto dest: str_items_Error split: sum.splits)

lemma event_data_Error: "event_data w v = Inl e \<Longrightarrow> \<exists>m. e = Error m"
  by (auto simp add: event_data_def bind_Inl_iff dest: py_get_Error)

lemma san_det_data_Error: "san_det_data w v = Inl e \<Longrightarrow> \<exists>m. e = Error m"
  by (auto simp add: san_det_data_def passes_count_def bind_Inl_iff
      dest: py_get_Error py_len_Error split: if_splits)

lemma host_data_Error: "host_data w v = Inl e \<Longrightarrow> \<exists>m. e = Error m"
  by (auto simp add: host_data_def tools_str_def bind_Inl_iff
      dest: py_get_Error comma_join_Error split: if_splits)

lemma certificate_story_Error:
  assumes "certificate_story w data cid = Inl e"
  shows "\<exists>m. e = Error m"
  using assms
  unfolding certificate_story_def Let_def bind_Inl_iff
  by (elim disjE exE conjE)
    (erule mk_Paragraph_Error
      | erule titled_section_Error,
        (simp; fail | erule event_data_Error san_det_data_Error host_data_Error)
      | simp; fail)+

lemma generate_certificate_pdf_Error:
  "generate_certificate_pdf w data cid em = Inl e \<Longrightarrow> \<exists>m. e = Error m"
  by (auto simp add: generate_certificate_pdf_def bind_Inl_iff
      dest: certificate_story_Error raised_Error)

lemma store_certificate_cases:
  assumes "store_certificate w sb data uid user_email cid pdf_bytes dm = (t, res)"
  obtains (upload_raised) m where
      "upload_file w sb ''certificates'' (filename w uid (safe_model dm) cid) pdf_bytes
         = (t, Inl (Error m))"
      and "t = [Upload_file ''certificates'' (filename w uid (safe_model dm) cid) pdf_bytes]"
      and "res = Inl (Error m)"
  | (rejected) r where
      "upload_file w sb ''certificates'' (filename w uid (safe_model dm) cid) pdf_bytes
         = (t, Inr r)"
      and "t = [Upload_file ''certificates'' (filename w uid (safe_model dm) cid) pdf_bytes]"
      and "status_code r \<notin> {200, 201}"
      and "res = Inl (HTTPException 500 (''Upload failed: '' @ text_body r))"
  | (accepted) r ts where
      "upload_file w sb ''certificates'' (filename w uid (safe_model dm) cid) pdf_bytes
         = ([Upload_file ''certificates'' (filename w uid (safe_model dm) cid) pdf_bytes], Inr r)"
      and "\<not> status_code r \<notin> {200, 201}"
      and "save_certificate w sb data uid user_email cid dm
             (get_public_url sb ''certificates'' (filename w uid (safe_model dm) cid)) = (ts, res)"
      and "t = Upload_file ''certificates'' (filename w uid (safe_model dm) cid) pdf_bytes # ts"
proof -
  define fn where "fn = filename w uid (safe_model dm) cid"
  have tr: "fst (upload_file w sb ''certificates'' fn pdf_bytes)
              = [Upload_file ''certificates'' fn pdf_bytes]"
    by (rule upload_file_trace)
  from assms have
    "io_bind (upload_file w sb ''certificates'' fn pdf_bytes) (\<lambda>upload_response.
       if status_code upload_response \<notin> {200, 201}
       then io_raise (HTTPException 500 (''Upload failed: '' @ text_body upload_response))
       else save_certificate w sb data uid user_email cid dm
              (get_public_url sb ''certificates'' fn)) = (t, res)"
    unfolding store_certificate_def Let_def fn_def .
  then show ?thesis
  proof (cases rule: io_bindE)
    case (fail e)
    from fail(1) have "e \<noteq> HTTPException c d" for c d
      using upload_file_not_HTTP [of w sb "''certificates''" fn pdf_bytes c d] by auto
    then obtain m where "e = Error m" by (cases e) auto
    with fail tr that(1) [of m] show ?thesis by (simp add: fn_def)
  next
    case (ok t1 r t2)
    from ok(1) tr have t1: "t1 = [Upload_file ''certificates'' fn pdf_bytes]" by simp
    show ?thesis
    proof (cases "status_code r \<notin> {200, 201}")
      case True
      with ok t1 that(2) [of r] show ?thesis by (simp add: fn_def)
    next
      case False
      with ok(2) have "save_certificate w sb data uid user_email cid dm
              (get_public_url sb ''certificates'' fn) = (t2, res)"
        by (simp only: if_False)
      with False ok(1,3) t1 that(3) [of r t2] show ?thesis by (simp add: fn_def)
    qed
  qed
qed

lemma generate_certificate_try_cases:
  assumes "generate_certificate_try w sb request authorization = (t, res)"
  obtains (denied) d where "res = Inl (HTTPException 401 d)"
      and "t = [] \<or> (\<exists>tok. t = [Verify_user tok])"
  | (failed) m tok where "res = Inl (Error m)" and "t = [Verify_user tok]"
  | (stored) tok user_info uid user_email data pdf_bytes dm ts where
      "authenticate w sb authorization ''Missing or invalid authorization header''
         ''Invalid authentication token'' = ([Verify_user tok], Inr user_info)"
      and "truthy user_info"
      and "getitem_str user_info ''id'' = Inr uid"
      and "py_get user_info ''email'' (PyStr ''unknown@example.com'') = Inr user_email"
      and "request = Inr (PyDict data)"
      and "generate_certificate_pdf w data (uuid4 w) user_email = Inr pdf_bytes"
      and "device_model_of data = Inr (PyStr dm)"
      and "store_certificate w sb data uid user_email (uuid4 w) pdf_bytes dm = (ts, res)"
      and "t = Verify_user tok # ts"
proof -
  from assms show ?thesis
    unfolding generate_certificate_try_def
  proof (cases rule: io_bindE)
    case (fail e)
    from fail(1) show ?thesis
      by (cases rule: authenticate_cases) (use fail(2) that(1,2) in auto)
  next
    case auth: (ok t1 user_info t2)
    from auth(1) obtain tok where t1: "t1 = [Verify_user tok]" and tru: "truthy user_info"
      by (cases rule: authenticate_cases) auto
    from auth(2) show ?thesis
    proof (cases rule: io_bindE)
      case (fail e)
      with t1 auth(3) that(2) getitem_str_Error [of user_info "''id''" e]
      show ?thesis by auto
    next
      case uid: (ok t3 uid t4)
      from uid(2) show ?thesis
      proof (cases rule: io_bindE)
        case (fail e)
        with t1 auth(3) uid that(2) py_get_Error [of user_info _ _ e]
        show ?thesis by auto
      next
        case em: (ok t5 user_email t6)
        from em(2) show ?thesis
        proof (cases rule: io_bindE)
          case (fail e)
          with t1 auth(3) uid em that(2) raised_Error [of request e]
          show ?thesis by auto
        next
          case body: (ok t7 body t8)
          from body(2) show ?thesis
          proof (cases rule: io_bindE)
            case (fail e)
            with t1 auth(3) uid em body that(2) py_keys_Error [of body e]
            show ?thesis by auto
          next
            case data: (ok t9 data t10)
            from body(1) data(1) have req: "request = Inr (PyDict data)"
              by (cases request) (auto simp add: raised_def py_keys_Inr)
            from data(2) have
              "io_bind (io_lift (generate_certificate_pdf w data (uuid4 w) user_email))
                 (\<lambda>pdf_bytes. io_bind (io_lift (device_model_of data)) (\<lambda>dm.
                    case dm of
                      PyStr s \<Rightarrow> store_certificate w sb data uid user_email (uuid4 w) pdf_bytes s
                    | _ \<Rightarrow> io_raise (AttributeError dm ''replace''))) = (t10, res)"
              by (simp only: Let_def)
            then show ?thesis
            proof (cases rule: io_bindE)
              case (fail e)
              with t1 auth(3) uid em body data that(2)
                generate_certificate_pdf_Error [of w data _ _ e]
              show ?thesis by auto
            next
              case pdf: (ok t11 pdf_bytes t12)
              from pdf(2) show ?thesis
              proof (cases rule: io_bindE)
                case (fail e)
                with t1 auth(3) uid em body data pdf that(2) resolve_Error [of data e]
                show ?thesis by auto
              next
                case dm: (ok t13 dm t14)
                have t: "t = Verify_user tok # t14"
                  using t1 auth(3) uid(1,3) em(1,3) body(1,3) data(1,3) pdf(1,3) dm(1,3)
                  by simp
                show ?thesis
                proof (cases dm)
                  case (PyStr s)
                  with dm t tru t1 auth(1) uid(1) em(1) req pdf(1)
                    that(3) [of tok user_info uid user_email data pdf_bytes s t14]
                  show ?thesis by simp
                qed (use dm t that(2) in \<open>auto simp add: AttributeError_def\<close>)
              qed
            qed
          qed
        qed
      qed
    qed
  qed
qed

lemma except_Exception_run:
  assumes "except_Exception k m = (t, res)"
  obtains res0 where "m = (t, res0)"
    and "res = (case res0 of Inl (Error msg) \<Rightarrow> Inl (HTTPException k msg) | _ \<Rightarrow> res0)"
  using assms
  by (cases m) (auto simp add: except_Exception_def split: sum.splits py_exception.splits)

lemma save_certificate_trace:
  assumes "save_certificate w sb data uid user_email cid dm u = (t, res)"
  shows "t = [] \<or> (\<exists>rec. t = [Insert_record ''certificates'' rec])"
  using assms by (cases rule: save_certificate_cases) auto

lemma run403:
  "generate_certificate w403 demo_client (Inr (PyDict scenario)) (Some ''Bearer tok'')
   = ([Verify_user ''tok'',
       Upload_file ''certificates''
         ''cert_u-1_SSD-500_1b4e28ba-2fa1-41d2-883f-0016d3cca427.pdf'' ''%PDF-1.4''],
      Inl (HTTPException 500 ''Upload failed: Forbidden''))"
  by (simp add: py_defs client_defs pdf_defs handler_defs demo_defs Let_def)

lemma authenticate_401:
  assumes "authorization = None
     \<or> (\<exists>a. authorization = Some a \<and> \<not> prefix ''Bearer '' a)
     \<or> (\<exists>a r. authorization = Some a
          \<and> requests_get w (url sb @ ''/auth/v1/user'')
               [(''apikey'', key sb),
                (''Authorization'', ''Bearer '' @ replace a ''Bearer '' []),
                (''Content-Type'', ''application/json'')] [] = Inr r
          \<and> status_code r \<noteq> 200)"
  shows "\<exists>t. authenticate w sb authorization missing invalid = (t, Inl (HTTPException 401 missing))
           \<or> authenticate w sb authorization missing invalid = (t, Inl (HTTPException 401 invalid))"
  using assms
  by (auto simp add: authenticate_def verify_user_def io_raise_def io_bind_def bind_def
        raised_def Let_def split: option.splits)

lemma denied_by_handler:
  assumes "\<exists>t. authenticate w sb authorization missing invalid = (t, Inl (HTTPException 401 missing))
           \<or> authenticate w sb authorization missing invalid = (t, Inl (HTTPException 401 invalid))"
  shows "\<exists>t d. except_Exception k (io_bind (authenticate w sb authorization missing invalid) f)
           = (t, Inl (HTTPException 401 d))"
  using assms by (auto simp add: io_bind_def except_Exception_def)

lemma select_records_run:
  obtains params where
    "select_records w sb table filters limit offset
       = ([Select_records table params],
          raised (requests_get w (url sb @ ''/rest/v1/'' @ table) (headers sb) params))"
  by (simp add: select_records_def Let_def)

lemma authenticated_cases:
  assumes "io_bind (authenticate w sb authorization missing invalid) (\<lambda>user_info.
             io_bind (io_lift (getitem_str user_info ''id'')) (f user_info)) = (t, res)"
  obtains (denied) d where "res = Inl (HTTPException 401 d)"
      and "t = [] \<or> (\<exists>tok. t = [Verify_user tok])"
  | (failed) m tok where "res = Inl (Error m)" and "t = [Verify_user tok]"
  | (known) tok user_info uid ts where
      "authenticate w sb authorization missing invalid = ([Verify_user tok], Inr user_info)"
      and "truthy user_info"
      and "getitem_str user_info ''id'' = Inr uid"
      and "f user_info uid = (ts, res)"
      and "t = Verify_user tok # ts"
proof -
  from assms show ?thesis
  proof (cases rule: io_bindE)
    case (fail e)
    from fail(1) show ?thesis
      by (cases rule: authenticate_cases) (use fail(2) that(1,2) in auto)
  next
    case auth: (ok t1 user_info t2)
    from auth(1) obtain tok where t1: "t1 = [Verify_user tok]" and tru: "truthy user_info"
      by (cases rule: authenticate_cases) auto
    from auth(2) show ?thesis
    proof (cases rule: io_bindE)
      case (fail e)
      with t1 auth(3) that(2) getitem_str_Error [of user_info "''id''" e]
      show ?thesis by auto
    next
      case (ok t3 uid t4)
      with t1 tru auth(1,3) that(3) [of tok user_info uid t4] show ?thesis by simp
    qed
  qed
qed

lemma get_my_certificates_try_cases:
  assumes "get_my_certificates_try w sb authorization limit offset = (t, res)"
  obtains (denied) d where "res = Inl (HTTPException 401 d)"
      and "t = [] \<or> (\<exists>tok. t = [Verify_user tok])"
  | (failed) m tok where "res = Inl (Error m)" and "t = [Verify_user tok]"
  | (selected) tok uid params where
      "t = [Verify_user tok, Select_records ''certificates'' params]"
      and "res = (case raised (requests_get w (url sb @ ''/rest/v1/certificates'')
                                 (headers sb) params) of
                    Inl e \<Rightarrow> Inl e
                  | Inr response \<Rightarrow>
                      if status_code response \<noteq> 200
                      then Inl (HTTPException 500 ''Database error'')
                      else (case raised (json_body response) of
                              Inl e \<Rightarrow> Inl e
                            | Inr data \<Rightarrow>
                                (case py_len data of
                                   Inl e \<Rightarrow> Inl e
                                 | Inr n \<Rightarrow>
                                     Inr (PyDict [(''user_id'', uid), (''certificates'', data),
                                                  (''count'', PyInt (int n))]))))"
proof -
  from assms show ?thesis
    unfolding get_my_certificates_try_def
  proof (cases rule: authenticated_cases)
    case (known tok user_info uid ts)
    obtain params where sel:
      "select_records w sb ''certificates'' (Some [(''user_id'', uid)]) (Some limit) (Some offset)
         = ([Select_records ''certificates'' params],
            raised (requests_get w (url sb @ ''/rest/v1/'' @ ''certificates'') (headers sb) params))"
      by (rule select_records_run)
    from known(4) sel have
      "ts = [Select_records ''certificates'' params]
       \<and> res = (case raised (requests_get w (url sb @ ''/rest/v1/certificates'')
                                 (headers sb) params) of
                    Inl e \<Rightarrow> Inl e
                  | Inr response \<Rightarrow>
                      if status_code response \<noteq> 200
                      then Inl (HTTPException 500 ''Database error'')
                      else (case raised (json_body response) of
                              Inl e \<Rightarrow> Inl e
                            | Inr data \<Rightarrow>
                                (case py_len data of
                                   Inl e \<Rightarrow> Inl e
                                 | Inr n \<Rightarrow>
                                     Inr (PyDict [(''user_id'', uid), (''certificates'', data),
                                                  (''count'', PyInt (int n))]))))"
      by (auto simp add: io_bind_def io_lift_def io_raise_def io_return_def
          split: sum.splits)
    with known(5) that(3) show ?thesis by blast
  qed (use that(1,2) in auto)
qed

lemma get_certificates_by_device_try_cases:
  assumes "get_certificates_by_device_try w sb model authorization = (t, res)"
  obtains (denied) d where "res = Inl (HTTPException 401 d)"
      and "t = [] \<or> (\<exists>tok. t = [Verify_user tok])"
  | (failed) m tok where "res = Inl (Error m)" and "t = [Verify_user tok]"
  | (selected) tok params where
      "t = [Verify_user tok, Select_records ''certificates'' params]"
      and "res = (case raised (requests_get w (url sb @ ''/rest/v1/certificates'')
                                 (headers sb) params) of
                    Inl e \<Rightarrow> Inl e
                  | Inr response \<Rightarrow>
                      if status_code response \<noteq> 200
                      then Inl (HTTPException 500 ''Database error'')
                      else (case raised (json_body response) of
                              Inl e \<Rightarrow> Inl e
                            | Inr data \<Rightarrow>
                                if \<not> truthy data
                                then Inl (HTTPException 404 ''No certificates found'')
                                else
                                  bind (getitem_0 data) (\<lambda>first.
                                  bind (py_get first ''manufacturer'' (PyStr ''Unknown''))
                                    (\<lambda>manufacturer.
                                  bind (py_len data) (\<lambda>n.
                                  Inr (PyDict [(''device_model'', PyStr model),
                                               (''manufacturer'', manufacturer),
                                               (''total_certificates'', PyInt (int n)),
                                               (''certificates'', data)]))))))"
proof -
  from assms show ?thesis
    unfolding get_certificates_by_device_try_def
  proof (cases rule: authenticated_cases)
    case (known tok user_info uid ts)
    obtain params where sel:
      "select_records w sb ''certificates'' (Some [(''user_id'', uid), (''model'', PyStr model)])
         None None
         = ([Select_records ''certificates'' params],
            raised (requests_get w (url sb @ ''/rest/v1/'' @ ''certificates'') (headers sb) params))"
      by (rule select_records_run)
    from known(4) sel have
      "ts = [Select_records ''certificates'' params]
       \<and> res = (case raised (requests_get w (url sb @ ''/rest/v1/certificates'')
                                 (headers sb) params) of
                    Inl e \<Rightarrow> Inl e
                  | Inr response \<Rightarrow>
                      if status_code response \<noteq> 200
                      then Inl (HTTPException 500 ''Database error'')
                      else (case raised (json_body response) of
                              Inl e \<Rightarrow> Inl e
                            | Inr data \<Rightarrow>
                                if \<not> truthy data
                                then Inl (HTTPException 404 ''No certificates found'')
                                else
                                  bind (getitem_0 data) (\<lambda>first.
                                  bind (py_get first ''manufacturer'' (PyStr ''Unknown''))
                                    (\<lambda>manufacturer.
                                  bind (py_len data) (\<lambda>n.
                                  Inr (PyDict [(''device_model'', PyStr model),
                                               (''manufacturer'', manufacturer),
                                               (''total_certificates'', PyInt (int n)),
                                               (''certificates'', data)]))))))"
      by (auto simp add: io_bind_def io_lift_def io_raise_def io_return_def bind_def
          split: sum.splits)
    with known(5) that(3) show ?thesis by blast
  qed (use that(1,2) in auto)
qed

lemma get_user_info_try_cases:
  assumes "get_user_info_try w sb authorization = (t, res)"
  obtains (denied) d where "res = Inl (HTTPException 401 d)"
      and "t = [] \<or> (\<exists>tok. t = [Verify_user tok])"
  | (failed) m tok where "res = Inl (Error m)" and "t = [Verify_user tok]"
  | (known) tok v where "res = Inr v" and "t = [Verify_user tok]"
proof -
  from assms show ?thesis
    unfolding get_user_info_try_def
  proof (cases rule: authenticated_cases)
    case (known tok user_info uid ts)
    from known(4) show ?thesis
    proof (cases rule: io_bindE)
      case (fail e)
      with known(5) that(2) py_get_Error [of user_info _ _ e] show ?thesis by auto
    next
      case (ok t1 email t2)
      with known(5) that(3) show ?thesis by auto
    qed
  qed (use that(1,2) in auto)
qed

lemma generate_upload_failed:
  assumes run: "generate_certificate w sb request authorization = (t, res)"
    and called: "Upload_file bucket fn pdf \<in> set t"
    and answer: "upload_file w sb bucket fn pdf = (c, Inr r)"
    and bad: "status_code r \<notin> {200, 201}"
  shows "res = Inl (HTTPException 500 (''Upload failed: '' @ text_body r))"
proof -
  from run obtain res0 where body: "generate_certificate_try w sb request authorization = (t, res0)"
    and res: "res = (case res0 of Inl (Error msg) \<Rightarrow> Inl (HTTPException 500 msg) | _ \<Rightarrow> res0)"
    unfolding generate_certificate_def by (rule except_Exception_run)
  from body show ?thesis
  proof (cases rule: generate_certificate_try_cases)
    case (denied d)
    with called show ?thesis by auto
  next
    case (failed m tok)
    with called show ?thesis by auto
  next
    case (stored tok user_info uid user_email data pdf_bytes dm ts)
    from stored(8) show ?thesis
    proof (cases rule: store_certificate_cases)
      case (upload_raised m)
      with called stored(9) answer show ?thesis by auto
    next
      case (rejected r')
      with called stored(9) answer have "r' = r" by auto
      with rejected stored(9) res show ?thesis by auto
    next
      case (accepted r' ts')
      from accepted(3) have "ts' = [] \<or> (\<exists>rec. ts' = [Insert_record ''certificates'' rec])"
        by (rule save_certificate_trace)
      with called stored(9) accepted(1,4) answer have "r' = r" by auto
      with accepted(2) bad show ?thesis by simp
    qed
  qed
qed

lemma generate_insert_failed:
  assumes run: "generate_certificate w sb request authorization = (t, res)"
    and called: "Insert_record table rec \<in> set t"
    and answer: "insert_record w sb table rec = (c, Inr r)"
    and bad: "status_code r \<notin> {200, 201}"
  shows "res = Inl (HTTPException 500 (''Database save failed: '' @ text_body r))"
proof -
  from run obtain res0 where body: "generate_certificate_try w sb request authorization = (t, res0)"
    and res: "res = (case res0 of Inl (Error msg) \<Rightarrow> Inl (HTTPException 500 msg) | _ \<Rightarrow> res0)"
    unfolding generate_certificate_def by (rule except_Exception_run)
  from body show ?thesis
  proof (cases rule: generate_certificate_try_cases)
    case (denied d)
    with called show ?thesis by auto
  next
    case (failed m tok)
    with called show ?thesis by auto
  next
    case (stored tok user_info uid user_email data pdf_bytes dm ts)
    from stored(8) show ?thesis
    proof (cases rule: store_certificate_cases)
      case (upload_raised m)
      with called stored(9) show ?thesis by auto
    next
      case (rejected r')
      with called stored(9) show ?thesis by auto
    next
      case (accepted r' ts')
      from accepted(3) show ?thesis
      proof (cases rule: save_certificate_cases)
        case (unprepared m)
        with called stored(9) accepted(4) show ?thesis by auto
      next
        case (inserted manufacturer serial_number rec' ri)
        with called stored(9) accepted(4) have same: "table = ''certificates''" "rec = rec'"
          by auto
        with inserted(4) answer have "ri = Inr r" by simp
        with inserted(6) bad have "res0 = Inl (HTTPException 500
             (''Database save failed: '' @ text_body r))"
          by simp
        with res show ?thesis by simp
      qed
    qed
  qed
qed

lemma my_certificates_select_failed:
  assumes run: "get_my_certificates w sb authorization limit offset = (t, res)"
    and called: "Select_records table params \<in> set t"
    and answer: "requests_get w (url sb @ ''/rest/v1/'' @ table) (headers sb) params = Inr r"
    and bad: "status_code r \<noteq> 200"
  shows "res = Inl (HTTPException 500 ''Database error'')"
proof -
  from run obtain res0 where body: "get_my_certificates_try w sb authorization limit offset = (t, res0)"
    and res: "res = (case res0 of Inl (Error msg) \<Rightarrow> Inl (HTTPException 500 msg) | _ \<Rightarrow> res0)"
    unfolding get_my_certificates_def by (rule except_Exception_run)
  from body show ?thesis
  proof (cases rule: get_my_certificates_try_cases)
    case (denied d)
    with called show ?thesis by auto
  next
    case (failed m tok)
    with called show ?thesis by auto
  next
    case (selected tok uid params')
    with called have "table = ''certificates''" "params' = params" by auto
    with selected(2) answer bad res show ?thesis by (simp add: raised_def)
  qed
qed

lemma by_device_select_failed:
  assumes run: "get_certificates_by_device w sb model authorization = (t, res)"
    and called: "Select_records table params \<in> set t"
    and answer: "requests_get w (url sb @ ''/rest/v1/'' @ table) (headers sb) params = Inr r"
    and bad: "status_code r \<noteq> 200"
  shows "res = Inl (HTTPException 500 ''Database error'')"
proof -
  from run obtain res0 where body: "get_certificates_by_device_try w sb model authorization = (t, res0)"
    and res: "res = (case res0 of Inl (Error msg) \<Rightarrow> Inl (HTTPException 500 msg) | _ \<Rightarrow> res0)"
    unfolding get_certificates_by_device_def by (rule except_Exception_run)
  from body show ?thesis
  proof (cases rule: get_certificates_by_device_try_cases)
    case (denied d)
    with called show ?thesis by auto
  next
    case (failed m tok)
    with called show ?thesis by auto
  next
    case (selected tok params')
    with called have "table = ''certificates''" "params' = params" by auto
    with selected(2) answer bad res show ?thesis by (simp add: raised_def)
  qed
qed

lemma run409:
  "generate_certificate w409 demo_client (Inr (PyDict scenario)) (Some ''Bearer tok'')
   = ([Verify_user ''tok'',
       Upload_file ''certificates''
         ''cert_u-1_SSD-500_1b4e28ba-2fa1-41d2-883f-0016d3cca427.pdf'' ''%PDF-1.4'',
       Insert_record ''certificates''
         (case certificate_data w409 scenario ''1b4e28ba-2fa1-41d2-883f-0016d3cca427''
                 (PyStr ''u-1'') (PyStr ''op@example.com'') (PyStr ''Acme'') (PyStr ''SSD-500'')
                 (PyStr ''Unknown'')
                 ''https://demo.supabase.co/storage/v1/object/public/certificates/cert_u-1_SSD-500_1b4e28ba-2fa1-41d2-883f-0016d3cca427.pdf''
          of Inr rec \<Rightarrow> rec | Inl e \<Rightarrow> [])],
      Inl (HTTPException 500 ''Database save failed: duplicate key''))"
  by (simp add: py_defs client_defs pdf_defs handler_defs demo_defs w409_def w_quota_def Let_def)

lemma run_quota:
  "get_my_certificates w_quota demo_client (Some ''Bearer tok'') 10 0
   = ([Verify_user ''tok'',
       Select_records ''certificates'' [(''user_id'', PyStr ''eq.u-1''), (''limit'', PyInt 10)] ],
      Inl (HTTPException 500 ''Database error''))"
  by (simp add: py_defs client_defs handler_defs demo_defs w409_def w_quota_def Let_def)

lemma run_quota_device:
  "get_certificates_by_device w_quota demo_client ''SSD-500'' (Some ''Bearer tok'')
   = ([Verify_user ''tok'',
       Select_records ''certificates''
         [(''user_id'', PyStr ''eq.u-1''), (''model'', PyStr ''eq.SSD-500'')] ],
      Inl (HTTPException 500 ''Database error''))"
  by (simp add: py_defs client_defs handler_defs demo_defs w409_def w_quota_def Let_def)

lemma generate_certificate_errors:
  assumes "generate_certificate w sb request authorization = (t, Inl e)"
  shows "\<exists>d. e = HTTPException 401 d \<or> e = HTTPException 500 d"
proof -
  from assms obtain res0 where body: "generate_certificate_try w sb request authorization = (t, res0)"
    and res: "Inl e = (case res0 of Inl (Error msg) \<Rightarrow> Inl (HTTPException 500 msg) | _ \<Rightarrow> res0)"
    unfolding generate_certificate_def by (rule except_Exception_run)
  from body show ?thesis
  proof (cases rule: generate_certificate_try_cases)
    case (denied d)
    with res show ?thesis by auto
  next
    case (failed m tok)
    with res show ?thesis by auto
  next
    case (stored tok user_info uid user_email data pdf_bytes dm ts)
    from stored(8) show ?thesis
    proof (cases rule: store_certificate_cases)
      case (upload_raised m)
      with res show ?thesis by auto
    next
      case (rejected r')
      with res show ?thesis by auto
    next
      case (accepted r' ts')
      from accepted(3) show ?thesis
      proof (cases rule: save_certificate_cases)
        case (unprepared m)
        with res show ?thesis by auto
      next
        case (inserted manufacturer serial_number rec ri)
        show ?thesis
        proof (cases ri)
          case (Inl e')
          with inserted(4) insert_record_not_HTTP [of w sb "''certificates''" rec]
          obtain m where "e' = Error m" by (cases e') auto
          with Inl inserted(6) res show ?thesis by auto
        next
          case (Inr db_response)
          with inserted(6) res pydantic_str_Error [of w uid]
          show ?thesis by (auto split: if_splits sum.splits)
        qed
      qed
    qed
  qed
qed

lemma get_my_certificates_errors:
  assumes "get_my_certificates w sb authorization limit offset = (t, Inl e)"
  shows "\<exists>d. e = HTTPException 401 d \<or> e = HTTPException 500 d"
proof -
  from assms obtain res0 where body: "get_my_certificates_try w sb authorization limit offset = (t, res0)"
    and res: "Inl e = (case res0 of Inl (Error msg) \<Rightarrow> Inl (HTTPException 500 msg) | _ \<Rightarrow> res0)"
    unfolding get_my_certificates_def by (rule except_Exception_run)
  from body show ?thesis
  proof (cases rule: get_my_certificates_try_cases)
    case (selected tok uid params)
    with res show ?thesis
      by (auto split: sum.splits if_splits dest!: raised_Error py_len_Error)
  qed (use res in auto)
qed

lemma get_certificates_by_device_errors:
  assumes "get_certificates_by_device w sb model authorization = (t, Inl e)"
  shows "(\<exists>d. e = HTTPException 401 d \<or> e = HTTPException 500 d)
         \<or> e = HTTPException 404 ''No certificates found''"
proof -
  from assms obtain res0 where body: "get_certificates_by_device_try w sb model authorization = (t, res0)"
    and res: "Inl e = (case res0 of Inl (Error msg) \<Rightarrow> Inl (HTTPException 500 msg) | _ \<Rightarrow> res0)"
    unfolding get_certificates_by_device_def by (rule except_Exception_run)
  from body show ?thesis
  proof (cases rule: get_certificates_by_device_try_cases)
    case (selected tok params)
    with res show ?thesis
      by (auto simp add: bind_Inl_iff split: sum.splits if_splits
          dest!: raised_Error py_len_Error getitem_0_Error py_get_Error)
  qed (use res in auto)
qed

lemma get_user_info_errors:
  assumes "get_user_info w sb authorization = (t, Inl e)"
  shows "\<exists>d. e = HTTPException 401 d"
proof -
  from assms obtain res0 where body: "get_user_info_try w sb authorization = (t, res0)"
    and res: "Inl e = (case res0 of Inl (Error msg) \<Rightarrow> Inl (HTTPException 401 msg) | _ \<Rightarrow> res0)"
    unfolding get_user_info_def by (rule except_Exception_run)
  from body show ?thesis
    by (cases rule: get_user_info_try_cases) (use res in auto)
qed

lemma run_empty:
  "get_certificates_by_device w_ok demo_client ''SSD-500'' (Some ''Bearer tok'')
     = ([Verify_user ''tok'',
         Select_records ''certificates''
           [(''user_id'', PyStr ''eq.u-1''), (''model'', PyStr ''eq.SSD-500'')] ],
        Inl (HTTPException 404 ''No certificates found''))"
  by (simp add: py_defs client_defs handler_defs demo_defs Let_def)

lemma run401_user_info:
  "get_user_info w401 demo_client (Some ''Bearer tok'')
     = ([Verify_user ''tok''], Inl (HTTPException 401 ''Invalid token''))"
  by (simp add: py_defs client_defs handler_defs demo_defs Let_def)

lemma authenticate_valid:
  assumes "authorization = Some a" and "prefix ''Bearer '' a"
    and "verify_user w sb (replace a ''Bearer '' []) = (tv, Inr user_info)"
    and "truthy user_info"
  shows "authenticate w sb authorization missing invalid = (tv, Inr user_info)"
  using assms
  by (auto simp add: authenticate_def io_bind_def io_return_def Let_def)

lemma run_noid:
  "get_user_info w_noid demo_client (Some ''Bearer tok'')
     = ([Verify_user ''tok''], Inl (HTTPException 401 (sq @ ''id'' @ sq)))"
  by (simp add: py_defs client_defs handler_defs demo_defs w_noid_def Let_def)

lemma missing_id:
  assumes "authorization = Some a" and "prefix ''Bearer '' a"
    and "verify_user w sb (replace a ''Bearer '' []) = (tv, Inr (PyDict u))"
    and "u \<noteq> []" and "map_of u ''id'' = None"
  shows "io_bind (authenticate w sb authorization missing invalid) (\<lambda>user_info.
           io_bind (io_lift (getitem_str user_info ''id'')) (f user_info))
         = (tv, Inl (Error (sq @ ''id'' @ sq)))"
proof -
  from assms have "authenticate w sb authorization missing invalid = (tv, Inr (PyDict u))"
    by (intro authenticate_valid) simp_all
  with assms(5) show ?thesis by (simp add: io_bind_def io_lift_def)
qed

lemma unparsable_body:
  assumes "authorization = Some a" and "prefix ''Bearer '' a"
    and "verify_user w sb (replace a ''Bearer '' []) = (tv, Inr (PyDict u))"
    and "map_of u ''id'' = Some uid" and "request = Inl m"
  shows "generate_certificate w sb request authorization = (tv, Inl (HTTPException 500 m))"
proof -
  from assms(4) have "u \<noteq> []" by auto
  with assms have "authenticate w sb authorization ''Missing or invalid authorization header''
      ''Invalid authentication token'' = (tv, Inr (PyDict u))"
    by (intro authenticate_valid) simp_all
  with assms(4,5) show ?thesis
    by (simp add: generate_certificate_def generate_certificate_try_def io_bind_def io_lift_def
        raised_def except_Exception_def)
qed

lemma verify_noid:
  "verify_user w_noid demo_client (replace ''Bearer tok'' ''Bearer '' [])
     = ([Verify_user ''tok''], Inr (PyDict [(''email'', PyStr ''op@example.com'')]))"
  by (simp add: py_defs client_defs demo_defs Let_def)

lemma verify_ok:
  "verify_user w_ok demo_client (replace ''Bearer tok'' ''Bearer '' [])
     = ([Verify_user ''tok''],
        Inr (PyDict [(''id'', PyStr ''u-1''), (''email'', PyStr ''op@example.com'')]))"
  by (simp add: py_defs client_defs demo_defs Let_def)

lemma try_noid:
  "generate_certificate_try w_noid demo_client (Inr (PyDict scenario)) (Some ''Bearer tok'')
     = ([Verify_user ''tok''], Inl (Error (sq @ ''id'' @ sq)))"
  "get_my_certificates_try w_noid demo_client (Some ''Bearer tok'') 10 0
     = ([Verify_user ''tok''], Inl (Error (sq @ ''id'' @ sq)))"
  "get_certificates_by_device_try w_noid demo_client ''SSD-500'' (Some ''Bearer tok'')
     = ([Verify_user ''tok''], Inl (Error (sq @ ''id'' @ sq)))"
  "get_user_info_try w_noid demo_client (Some ''Bearer tok'')
     = ([Verify_user ''tok''], Inl (Error (sq @ ''id'' @ sq)))"
  by (simp_all add: py_defs client_defs handler_defs demo_defs Let_def)

lemma save_certificate_prepared:
  assumes "manufacturer_of data = Inr man" and "serial_number_of data = Inr ser"
    and "certificate_data w data cid uid em man (PyStr dm) ser u = Inr rec"
  shows "fst (save_certificate w sb data uid em cid dm u) = [Insert_record ''certificates'' rec]"
proof -
  obtain t res where run: "save_certificate w sb data uid em cid dm u = (t, res)"
    by fastforce
  then show ?thesis
  proof (cases rule: save_certificate_cases)
    case (unprepared m)
    with run assms show ?thesis
      by (simp add: save_certificate_def io_bind_def io_lift_def insert_record_def Let_def
          split: sum.splits prod.splits)
  next
    case (inserted manufacturer serial_number rec' r)
    with run assms show ?thesis by simp
  qed
qed

lemma scenario_fields:
  "device_model_of scenario = Inr (PyStr ''SSD-500'')"
  "manufacturer_of scenario = Inr (PyStr ''Acme'')"
  "serial_number_of scenario = Inr (PyStr ''Unknown'')"
  by (simp_all add: device_model_of_def manufacturer_of_def serial_number_of_def scenario_def
      py_or_def bind_def dict_get_def)

lemma scenario_certificate_data:
  "\<exists>rec. certificate_data w scenario cid uid em (PyStr ''Acme'') (PyStr ''SSD-500'')
            (PyStr ''Unknown'') u = Inr rec
         \<and> map_of rec ''model'' = Some (PyStr ''SSD-500'')
         \<and> map_of rec ''manufacturer'' = Some (PyStr ''Acme'')"
  by (simp add: certificate_data_def media_type_of_def sanitization_method_of_def
      sanitization_technique_of_def tool_used_of_def verification_method_of_def scenario_def
      py_or_def bind_def dict_get_def)

lemma pdf_ok:
  "generate_certificate_pdf w_ok scenario (uuid4 w_ok)
     (dict_get [(''id'', PyStr ''u-1''), (''email'', PyStr ''op@example.com'')] ''email''
        (PyStr ''unknown@example.com'')) = Inr ''%PDF-1.4''"
  by (simp add: py_defs pdf_defs demo_defs Let_def)

lemma upload_ok:
  "upload_file w_ok demo_client ''certificates''
     (filename w_ok (PyStr ''u-1'') (safe_model ''SSD-500'') (uuid4 w_ok)) ''%PDF-1.4''
   = ([Upload_file ''certificates''
         ''cert_u-1_SSD-500_1b4e28ba-2fa1-41d2-883f-0016d3cca427.pdf'' ''%PDF-1.4''],
      Inr (reply 200 ''ok'' (Inl ''no json'')))"
  by (simp add: py_defs client_defs handler_defs demo_defs Let_def)

lemma pydantic_str_Inr: "pydantic_str w v = Inr s \<Longrightarrow> s = py_str (repr w) v"
  by (auto simp add: pydantic_str_def split: py.splits option.splits)

lemma generate_certificate_url:
  assumes "generate_certificate w sb request authorization = (t, Inr resp)"
  shows "pdf_url resp
         = url sb @ ''/storage/v1/object/public/certificates/cert_'' @ user_id resp @ ''_''
             @ safe_model (device_model resp) @ ''_'' @ certificate_id resp @ ''.pdf''"
proof -
  from assms obtain res0 where body: "generate_certificate_try w sb request authorization = (t, res0)"
    and res: "Inr resp = (case res0 of Inl (Error msg) \<Rightarrow> Inl (HTTPException 500 msg) | _ \<Rightarrow> res0)"
    unfolding generate_certificate_def by (rule except_Exception_run)
  from res have res0: "res0 = Inr resp"
    by (auto split: sum.splits py_exception.splits)
  from body show ?thesis
  proof (cases rule: generate_certificate_try_cases)
    case (stored tok user_info uid user_email data pdf_bytes dm ts)
    from stored(8) show ?thesis
    proof (cases rule: store_certificate_cases)
      case (accepted r' ts')
      from accepted(3) show ?thesis
      proof (cases rule: save_certificate_cases)
        case (inserted manufacturer serial_number rec ri)
        from inserted(6) res0 obtain uid_str where
          uid_str: "pydantic_str w uid = Inr uid_str"
          and resp: "resp = \<lparr>certificate_id = uuid4 w,
              pdf_url = get_public_url sb ''certificates'' (filename w uid (safe_model dm) (uuid4 w)),
              created_at = now_isoformat w 1, user_id = uid_str, device_model = dm,
              message = ''Certificate generated successfully''\<rparr>"
          by (auto split: sum.splits if_splits)
        from uid_str have "uid_str = py_str (repr w) uid" by (rule pydantic_str_Inr)
        with resp show ?thesis by (simp add: get_public_url_def filename_def)
      qed (use res0 in auto)
    qed (use res0 in auto)
  qed (use res0 in auto)
qed

lemma run_space:
  "\<exists>t created.
     generate_certificate w_ok demo_client (Inr (PyDict scenario_space)) (Some ''Bearer tok'')
     = (t, Inr \<lparr>certificate_id = ''1b4e28ba-2fa1-41d2-883f-0016d3cca427'',
              pdf_url = ''https://demo.supabase.co/storage/v1/object/public/certificates/cert_u-1_SSD_500_1b4e28ba-2fa1-41d2-883f-0016d3cca427.pdf'',
              created_at = created, user_id = ''u-1'', device_model = ''SSD 500'',
              message = ''Certificate generated successfully''\<rparr>)"
  by (simp add: py_defs client_defs pdf_defs handler_defs demo_defs scenario_space_def Let_def)

lemma run_slash:
  "\<exists>t created.
     generate_certificate w_ok demo_client (Inr (PyDict scenario_slash)) (Some ''Bearer tok'')
     = (t, Inr \<lparr>certificate_id = ''1b4e28ba-2fa1-41d2-883f-0016d3cca427'',
              pdf_url = ''https://demo.supabase.co/storage/v1/object/public/certificates/cert_u-1_SSD_500_1b4e28ba-2fa1-41d2-883f-0016d3cca427.pdf'',
              created_at = created, user_id = ''u-1'', device_model = ''SSD/500'',
              message = ''Certificate generated successfully''\<rparr>)"
  by (simp add: py_defs client_defs pdf_defs handler_defs demo_defs scenario_slash_def Let_def)

lemma safe_model_demo:
  "safe_model ''SSD 500'' = ''SSD_500''" "safe_model ''SSD/500'' = ''SSD_500''"
  by (simp_all add: safe_model_def replace_def)

lemma chain3_resolution:
  "py_or a (bind (py_get sv k PyNone) (\<lambda>nested. py_or nested (Inr p)))
   = (if truthy a then Inr a
      else case sv of
             PyDict sec \<Rightarrow>
               Inr (if truthy (dict_get sec k PyNone) then dict_get sec k PyNone else p)
           | _ \<Rightarrow> Inl (AttributeError sv ''get''))"
  by (cases sv) (simp_all add: py_or_def bind_def)

lemma chain2_resolution:
  "py_or a (py_get sv k PyNone)
   = (if truthy a then Inr a
      else case sv of
             PyDict sec \<Rightarrow> Inr (dict_get sec k PyNone)
           | _ \<Rightarrow> Inl (AttributeError sv ''get''))"
  by (cases sv) (simp_all add: py_or_def)

lemmas resolution_defs = device_model_of_def manufacturer_of_def serial_number_of_def
  media_type_of_def sanitization_method_of_def sanitization_technique_of_def tool_used_of_def
  verification_method_of_def

lemma dict_get_without:
  "dict_get (filter (\<lambda>kv. fst kv \<noteq> k) d) k' x = (if k' = k then x else dict_get d k' x)"
  by (induction d) (auto simp add: dict_get_def)

lemma get_value_falsy:
  assumes "map_of d k = Some v" and "\<not> truthy v"
  shows "get_value w (PyDict d) k dflt = dflt"
  using assms by (simp add: get_value_def dict_get_def)

lemma get_value_absent:
  assumes "map_of d k = None"
  shows "get_value w (PyDict d) k dflt = dflt"
  using assms by (simp add: get_value_def dict_get_def)

lemma get_value_all_falsy:
  assumes "\<forall>v \<in> snd ` set d. \<not> truthy v"
  shows "get_value w (PyDict d) k dflt = dflt"
proof (cases "map_of d k")
  case None
  then show ?thesis by (rule get_value_absent)
next
  case (Some v)
  then have "(k, v) \<in> set d" by (rule map_of_SomeD)
  then have "v \<in> snd ` set d" by force
  with assms have "\<not> truthy v" by blast
  with Some show ?thesis by (rule get_value_falsy)
qed

lemma get_value_of_falsy:
  assumes "\<not> truthy obj"
  shows "get_value w obj k dflt = dflt"
  using assms by (cases obj) (simp_all add: get_value_def dict_get_def)

lemma dict_get_all_falsy:
  assumes "\<forall>v \<in> snd ` set d. \<not> truthy v" and "\<not> truthy x"
  shows "\<not> truthy (dict_get d k x)"
proof (cases "map_of d k")
  case None
  with assms(2) show ?thesis by (simp add: dict_get_def)
next
  case (Some v)
  then have "(k, v) \<in> set d" by (rule map_of_SomeD)
  then have "v \<in> snd ` set d" by force
  with assms(1) have "\<not> truthy v" by blast
  with Some show ?thesis by (simp add: dict_get_def)
qed

lemma tables_all_falsy:
  assumes "\<forall>v \<in> snd ` set d. \<not> truthy v"
  shows "\<forall>row \<in> set (cert_info_data w (PyDict d) cid). \<forall>(text, st) \<in> set row.
           st = label_style \<or> text = ''N/A'' \<or> text = cid"
    and "\<forall>row \<in> set (tool_data w (PyDict d)). \<forall>(text, st) \<in> set row.
           st = label_style \<or> text = ''N/A'' \<or> text = []"
    and "\<forall>row \<in> set (media_data w (PyDict d)). \<forall>(text, st) \<in> set row.
           st = label_style \<or> text = ''N/A'' \<or> text = []"
    and "\<forall>row \<in> set (comp_data w (PyDict d)). \<forall>(text, st) \<in> set row.
           st = label_style \<or> text = ''N/A'' \<or> text = []"
    and "\<exists>rows. event_data w (PyDict d) = Inr rows
           \<and> (\<forall>row \<in> set rows. \<forall>(text, st) \<in> set row.
                 st = label_style \<or> text = ''N/A'' \<or> text = [])"
    and "\<exists>rows. san_det_data w (PyDict d) = Inr rows
           \<and> (\<forall>row \<in> set rows. \<forall>(text, st) \<in> set row.
                 st = label_style \<or> text = ''N/A'' \<or> text = [])"
    and "\<exists>rows. host_data w (PyDict d) = Inr rows
           \<and> (\<forall>row \<in> set rows. \<forall>(text, st) \<in> set row.
                 st = label_style \<or> text = ''N/A'' \<or> text = [])"
proof -
  note gv = get_value_all_falsy [OF assms]
  show "\<forall>row \<in> set (cert_info_data w (PyDict d) cid). \<forall>(text, st) \<in> set row.
           st = label_style \<or> text = ''N/A'' \<or> text = cid"
    by (simp add: cert_info_data_def gv)
  show "\<forall>row \<in> set (tool_data w (PyDict d)). \<forall>(text, st) \<in> set row.
           st = label_style \<or> text = ''N/A'' \<or> text = []"
    by (simp add: tool_data_def gv)
  show "\<forall>row \<in> set (media_data w (PyDict d)). \<forall>(text, st) \<in> set row.
           st = label_style \<or> text = ''N/A'' \<or> text = []"
    by (simp add: media_data_def gv)
  show "\<forall>row \<in> set (comp_data w (PyDict d)). \<forall>(text, st) \<in> set row.
           st = label_style \<or> text = ''N/A'' \<or> text = []"
    by (simp add: comp_data_def gv)
  have op: "get_value w (dict_get d ''operator'' (PyDict [])) k ''N/A'' = ''N/A''" for k
    by (rule get_value_of_falsy) (rule dict_get_all_falsy [OF assms], simp)
  show "\<exists>rows. event_data w (PyDict d) = Inr rows
           \<and> (\<forall>row \<in> set rows. \<forall>(text, st) \<in> set row.
                 st = label_style \<or> text = ''N/A'' \<or> text = [])"
    by (simp add: event_data_def bind_def gv op)
  have "\<not> truthy (dict_get d ''passes_performed'' (PyList []))"
    by (rule dict_get_all_falsy [OF assms]) simp
  then show "\<exists>rows. san_det_data w (PyDict d) = Inr rows
           \<and> (\<forall>row \<in> set rows. \<forall>(text, st) \<in> set row.
                 st = label_style \<or> text = ''N/A'' \<or> text = [])"
    by (simp add: san_det_data_def passes_count_def bind_def gv)
  have "\<not> truthy (dict_get d ''tools_used'' (PyList []))"
    by (rule dict_get_all_falsy [OF assms]) simp
  then show "\<exists>rows. host_data w (PyDict d) = Inr rows
           \<and> (\<forall>row \<in> set rows. \<forall>(text, st) \<in> set row.
                 st = label_style \<or> text = ''N/A'' \<or> text = [])"
    by (simp add: host_data_def tools_str_def bind_def gv)
qed

lemma resolution_without:
  "\<forall>(resolve, top_key) \<in> set
      [(device_model_of, ''model''), (manufacturer_of, ''manufacturer''),
       (serial_number_of, ''serial_number''), (media_type_of, ''media_type''),
       (sanitization_method_of, ''sanitization_method''),
       (sanitization_technique_of, ''sanitization_technique''),
       (tool_used_of, ''tool_used''), (verification_method_of, ''verification_method'')].
     \<not> truthy (dict_get data top_key PyNone)
     \<longrightarrow> resolve data = resolve (filter (\<lambda>kv. fst kv \<noteq> top_key) data)"
  by (simp add: resolution_defs py_or_def dict_get_without)

lemma get_value_without:
  "get_value w (PyDict (filter (\<lambda>kv. fst kv \<noteq> k) d)) k dflt = dflt"
  by (simp add: get_value_def dict_get_without)

section \<open>The claims\<close>

text \<open>
  C3. In every run of \<^verbatim>\<open>generate_certificate\<close> that calls the storage upload and gets
  a reply whose status is not 2xx, the endpoint answers HTTP 500 (with the detail
  \<^verbatim>\<open>Upload failed:\<close> and the reply's text), and the run never calls \<^verbatim>\<open>insert_record\<close>:
  no certificate record is written.
\<close>

theorem upload_rejected_no_record:
  assumes run: "generate_certificate w sb request authorization = (t, res)"
    and called: "Upload_file bucket fn pdf \<in> set t"
    and reply: "upload_file w sb bucket fn pdf = (c, Inr r)"
    and status: "status_code r < 200 \<or> 300 \<le> status_code r"
  shows "res = Inl (HTTPException 500 (''Upload failed: '' @ text_body r))
         \<and> (\<forall>table rec. Insert_record table rec \<notin> set t)"
proof -
  from run obtain res0 where body: "generate_certificate_try w sb request authorization = (t, res0)"
    and res: "res = (case res0 of Inl (Error msg) \<Rightarrow> Inl (HTTPException 500 msg) | _ \<Rightarrow> res0)"
    unfolding generate_certificate_def by (rule except_Exception_run)
  from status have bad: "status_code r \<notin> {200, 201}" by auto
  from body show ?thesis
  proof (cases rule: generate_certificate_try_cases)
    case (denied d)
    with called show ?thesis by auto
  next
    case (failed m tok)
    with called show ?thesis by auto
  next
    case (stored tok user_info uid user_email data pdf_bytes dm ts)
    from stored(8) show ?thesis
    proof (cases rule: store_certificate_cases)
      case (upload_raised m)
      with called stored(9) reply show ?thesis by auto
    next
      case (rejected r')
      with called stored(9) reply have "r' = r" by auto
      with rejected stored(9) res show ?thesis by auto
    next
      case (accepted r' ts')
      from accepted(3) have "ts' = [] \<or> (\<exists>rec. ts' = [Insert_record ''certificates'' rec])"
        by (rule save_certificate_trace)
      with called stored(9) accepted(1,4) reply have "r' = r" by auto
      with accepted(2) bad show ?thesis by simp
    qed
  qed
qed

theorem upload_rejected_no_record_witness:
  "snd (generate_certificate w403 demo_client (Inr (PyDict scenario)) (Some ''Bearer tok''))
     = Inl (HTTPException 500 ''Upload failed: Forbidden'')
   \<and> (\<forall>table rec. Insert_record table rec \<notin>
         set (fst (generate_certificate w403 demo_client (Inr (PyDict scenario))
                     (Some ''Bearer tok''))))"
proof -
  have answer: "upload_file w403 demo_client ''certificates''
                 ''cert_u-1_SSD-500_1b4e28ba-2fa1-41d2-883f-0016d3cca427.pdf'' ''%PDF-1.4''
               = ([Upload_file ''certificates''
                     ''cert_u-1_SSD-500_1b4e28ba-2fa1-41d2-883f-0016d3cca427.pdf'' ''%PDF-1.4''],
                  Inr (reply 403 ''Forbidden'' (Inl ''no json'')))"
    by (simp add: upload_file_def raised_def demo_defs Let_def)
  have status: "status_code (reply 403 ''Forbidden'' (Inl ''no json'')) < 200
                \<or> 300 \<le> status_code (reply 403 ''Forbidden'' (Inl ''no json''))"
    by (simp add: reply_def)
  from upload_rejected_no_record [OF run403 _ answer status]
  show ?thesis by (simp add: run403 reply_def)
qed

text \<open>
  C2. A request to a protected endpoint (\<^verbatim>\<open>POST /generate-certificate\<close>,
  \<^verbatim>\<open>GET /my-certificates\<close>, \<^verbatim>\<open>GET /certificates-by-device/{model}\<close>,
  \<^verbatim>\<open>GET /user-info\<close>) whose \<^verbatim>\<open>Authorization\<close> header is missing, does not start with
  \<^verbatim>\<open>Bearer \<close>, or carries a token to which the identity provider answers with a status
  other than 200, is answered with HTTP 401.
\<close>

theorem unauthorized_401:
  assumes "authorization = None
     \<or> (\<exists>a. authorization = Some a \<and> \<not> prefix ''Bearer '' a)
     \<or> (\<exists>a r. authorization = Some a
          \<and> requests_get w (url sb @ ''/auth/v1/user'')
               [(''apikey'', key sb),
                (''Authorization'', ''Bearer '' @ replace a ''Bearer '' []),
                (''Content-Type'', ''application/json'')] [] = Inr r
          \<and> status_code r \<noteq> 200)"
  shows "(\<exists>t d. generate_certificate w sb request authorization
                  = (t, Inl (HTTPException 401 d)))
       \<and> (\<exists>t d. get_my_certificates w sb authorization limit offset
                  = (t, Inl (HTTPException 401 d)))
       \<and> (\<exists>t d. get_certificates_by_device w sb model authorization
                  = (t, Inl (HTTPException 401 d)))
       \<and> (\<exists>t d. get_user_info w sb authorization = (t, Inl (HTTPException 401 d)))"
  unfolding generate_certificate_def generate_certificate_try_def
    get_my_certificates_def get_my_certificates_try_def
    get_certificates_by_device_def get_certificates_by_device_try_def
    get_user_info_def get_user_info_try_def
  by (intro conjI denied_by_handler authenticate_401 assms)

theorem unauthorized_401_witness:
  "(\<exists>t d. generate_certificate w401 demo_client (Inr (PyDict scenario)) (Some ''Bearer tok'')
                  = (t, Inl (HTTPException 401 d)))
       \<and> (\<exists>t d. get_my_certificates w401 demo_client (Some ''Bearer tok'') 10 0
                  = (t, Inl (HTTPException 401 d)))
       \<and> (\<exists>t d. get_certificates_by_device w401 demo_client ''SSD-500'' (Some ''Bearer tok'')
                  = (t, Inl (HTTPException 401 d)))
       \<and> (\<exists>t d. get_user_info w401 demo_client (Some ''Bearer tok'')
                  = (t, Inl (HTTPException 401 d)))"
proof -
  have rejected: "requests_get w401 (url demo_client @ ''/auth/v1/user'')
               [(''apikey'', key demo_client),
                (''Authorization'', ''Bearer '' @ replace ''Bearer tok'' ''Bearer '' []),
                (''Content-Type'', ''application/json'')] []
          = Inr (reply 401 ''invalid JWT'' (Inr (PyDict [(''msg'', PyStr ''invalid JWT'')])))
        \<and> status_code (reply 401 ''invalid JWT'' (Inr (PyDict [(''msg'', PyStr ''invalid JWT'')])))
            \<noteq> 200"
    by (simp add: w401_def demo_defs py_defs client_defs)
  show ?thesis
    by (rule unauthorized_401) (use rejected in blast)
qed

text \<open>
  C5. The claim as stated fails: \<^verbatim>\<open>GET /my-certificates\<close> answers a failed select with
  the fixed detail \<^verbatim>\<open>Database error\<close>, whatever the database said.
\<close>

theorem upstream_text_counterexample:
  "requests_get w_quota (url demo_client @ ''/rest/v1/certificates'') (headers demo_client)
       [(''user_id'', PyStr ''eq.u-1''), (''limit'', PyInt 10)]
     = Inr (reply 500 ''quota exceeded'' (Inl ''no json''))
   \<and> get_my_certificates w_quota demo_client (Some ''Bearer tok'') 10 0
     = ([Verify_user ''tok'',
         Select_records ''certificates''
           [(''user_id'', PyStr ''eq.u-1''), (''limit'', PyInt 10)] ],
        Inl (HTTPException 500 ''Database error''))
   \<and> \<not> sublist ''quota exceeded'' ''Database error''"
proof -
  have "\<not> sublist ''quota exceeded'' ''Database error''"
  proof
    assume "sublist ''quota exceeded'' ''Database error''"
    then have "set ''quota exceeded'' \<subseteq> set ''Database error''"
      by (rule set_mono_sublist)
    then show False by simp
  qed
  then show ?thesis
    by (simp add: run_quota) (simp add: demo_defs w409_def w_quota_def client_defs py_defs)
qed

text \<open>
  C5, amended. A failed downstream call is answered with HTTP 500. In
  \<^verbatim>\<open>generate_certificate\<close>, where a reply fails when its status is neither 200 nor 201,
  the detail is \<^verbatim>\<open>Upload failed: \<close> or \<^verbatim>\<open>Database save failed: \<close> followed by the reply's
  text. In \<^verbatim>\<open>get_my_certificates\<close> and \<^verbatim>\<open>get_certificates_by_device\<close>, where a reply fails
  when its status is not 200, the detail is the fixed text \<^verbatim>\<open>Database error\<close>.
\<close>

theorem downstream_failure_500:
  "(generate_certificate w sb request authorization = (t, res)
      \<and> Upload_file bucket fn pdf \<in> set t
      \<and> upload_file w sb bucket fn pdf = (c, Inr r)
      \<and> status_code r \<notin> {200, 201}
    \<longrightarrow> res = Inl (HTTPException 500 (''Upload failed: '' @ text_body r)))
   \<and> (generate_certificate w sb request authorization = (t, res)
      \<and> Insert_record table rec \<in> set t
      \<and> insert_record w sb table rec = (c, Inr r)
      \<and> status_code r \<notin> {200, 201}
    \<longrightarrow> res = Inl (HTTPException 500 (''Database save failed: '' @ text_body r)))
   \<and> (get_my_certificates w sb authorization limit offset = (t, out)
      \<and> Select_records table params \<in> set t
      \<and> requests_get w (url sb @ ''/rest/v1/'' @ table) (headers sb) params = Inr r
      \<and> status_code r \<noteq> 200
    \<longrightarrow> out = Inl (HTTPException 500 ''Database error''))
   \<and> (get_certificates_by_device w sb model authorization = (t, out)
      \<and> Select_records table params \<in> set t
      \<and> requests_get w (url sb @ ''/rest/v1/'' @ table) (headers sb) params = Inr r
      \<and> status_code r \<noteq> 200
    \<longrightarrow> out = Inl (HTTPException 500 ''Database error''))"
  by (intro conjI impI; elim conjE;
      erule (3) generate_upload_failed generate_insert_failed my_certificates_select_failed
        by_device_select_failed)

theorem downstream_failure_500_witness:
  "snd (generate_certificate w403 demo_client (Inr (PyDict scenario)) (Some ''Bearer tok''))
     = Inl (HTTPException 500 ''Upload failed: Forbidden'')
   \<and> snd (generate_certificate w409 demo_client (Inr (PyDict scenario)) (Some ''Bearer tok''))
     = Inl (HTTPException 500 ''Database save failed: duplicate key'')
   \<and> snd (get_my_certificates w_quota demo_client (Some ''Bearer tok'') 10 0)
     = Inl (HTTPException 500 ''Database error'')
   \<and> snd (get_certificates_by_device w_quota demo_client ''SSD-500'' (Some ''Bearer tok''))
     = Inl (HTTPException 500 ''Database error'')"
proof -
  have up: "upload_file w403 demo_client bucket fn pdf
              = ([Upload_file bucket fn pdf], Inr (reply 403 ''Forbidden'' (Inl ''no json'')))"
    for bucket fn pdf
    by (simp add: upload_file_def raised_def demo_defs Let_def)
  have ins: "insert_record w409 demo_client table rec
              = ([Insert_record table rec], Inr (reply 409 ''duplicate key'' (Inl ''no json'')))"
    for table rec
    by (simp add: insert_record_def raised_def demo_defs Let_def)
  have sel: "requests_get w_quota (url demo_client @ ''/rest/v1/'' @ ''certificates'')
               (headers demo_client) params
             = Inr (reply 500 ''quota exceeded'' (Inl ''no json''))" for params
    by (simp add: demo_defs client_defs py_defs)
  have a: "snd (generate_certificate w403 demo_client (Inr (PyDict scenario)) (Some ''Bearer tok''))
     = Inl (HTTPException 500 ''Upload failed: Forbidden'')"
  proof -
    obtain t res where run:
      "generate_certificate w403 demo_client (Inr (PyDict scenario)) (Some ''Bearer tok'')
         = (t, res)"
      by fastforce
    with run403 have called: "Upload_file ''certificates''
         ''cert_u-1_SSD-500_1b4e28ba-2fa1-41d2-883f-0016d3cca427.pdf'' ''%PDF-1.4'' \<in> set t"
      by simp
    have "res = Inl (HTTPException 500
        (''Upload failed: '' @ text_body (reply 403 ''Forbidden'' (Inl ''no json''))))"
      by (rule downstream_failure_500 [THEN conjunct1, THEN mp])
        (intro conjI, rule run, rule called, rule up, simp add: reply_def)
    with run show ?thesis by (simp add: reply_def)
  qed
  have b: "snd (generate_certificate w409 demo_client (Inr (PyDict scenario)) (Some ''Bearer tok''))
     = Inl (HTTPException 500 ''Database save failed: duplicate key'')"
  proof -
    obtain t res where run:
      "generate_certificate w409 demo_client (Inr (PyDict scenario)) (Some ''Bearer tok'')
         = (t, res)"
      by fastforce
    with run409 obtain rec where called: "Insert_record ''certificates'' rec \<in> set t"
      by auto
    have "res = Inl (HTTPException 500
        (''Database save failed: '' @ text_body (reply 409 ''duplicate key'' (Inl ''no json''))))"
      by (rule downstream_failure_500 [THEN conjunct2, THEN conjunct1, THEN mp])
        (intro conjI, rule run, rule called, rule ins, simp add: reply_def)
    with run show ?thesis by (simp add: reply_def)
  qed
  have c: "snd (get_my_certificates w_quota demo_client (Some ''Bearer tok'') 10 0)
     = Inl (HTTPException 500 ''Database error'')"
  proof -
    obtain t res where run:
      "get_my_certificates w_quota demo_client (Some ''Bearer tok'') 10 0 = (t, res)"
      by fastforce
    with run_quota obtain params where called: "Select_records ''certificates'' params \<in> set t"
      by auto
    have "res = Inl (HTTPException 500 ''Database error'')"
      by (rule downstream_failure_500
            [THEN conjunct2, THEN conjunct2, THEN conjunct1, THEN mp])
        (intro conjI, rule run, rule called, rule sel, simp add: reply_def)
    with run show ?thesis by simp
  qed
  have d: "snd (get_certificates_by_device w_quota demo_client ''SSD-500'' (Some ''Bearer tok''))
     = Inl (HTTPException 500 ''Database error'')"
  proof -
    obtain t res where run:
      "get_certificates_by_device w_quota demo_client ''SSD-500'' (Some ''Bearer tok'')
         = (t, res)"
      by fastforce
    with run_quota_device obtain params where
      called: "Select_records ''certificates'' params \<in> set t"
      by auto
    have "res = Inl (HTTPException 500 ''Database error'')"
      by (rule downstream_failure_500
            [THEN conjunct2, THEN conjunct2, THEN conjunct2, THEN mp])
        (intro conjI, rule run, rule called, rule sel, simp add: reply_def)
    with run show ?thesis by simp
  qed
  from a b c d show ?thesis by simp
qed

text \<open>
  C4. The claim as stated fails: \<^verbatim>\<open>GET /certificates-by-device/{model}\<close> answers HTTP 404
  when the select succeeds and returns no rows.
\<close>

theorem error_status_counterexample:
  "get_certificates_by_device w_ok demo_client ''SSD-500'' (Some ''Bearer tok'')
     = ([Verify_user ''tok'',
         Select_records ''certificates''
           [(''user_id'', PyStr ''eq.u-1''), (''model'', PyStr ''eq.SSD-500'')] ],
        Inl (HTTPException 404 ''No certificates found''))"
  by (rule run_empty)

text \<open>
  C4, amended. Every error response of the handlers has status 401, 404 or 500:
  \<^verbatim>\<open>generate_certificate\<close> and \<^verbatim>\<open>get_my_certificates\<close> answer an error with 401 or 500,
  \<^verbatim>\<open>get_certificates_by_device\<close> with 401, 500, or 404 and the detail
  \<^verbatim>\<open>No certificates found\<close>, \<^verbatim>\<open>get_user_info\<close> with 401 only; \<^verbatim>\<open>root\<close> and
  \<^verbatim>\<open>health_check\<close> never answer an error.
\<close>

theorem error_statuses:
  "(generate_certificate w sb request authorization = (t, Inl e)
      \<longrightarrow> (\<exists>d. e = HTTPException 401 d \<or> e = HTTPException 500 d))
   \<and> (get_my_certificates w sb authorization limit offset = (t, Inl e)
      \<longrightarrow> (\<exists>d. e = HTTPException 401 d \<or> e = HTTPException 500 d))
   \<and> (get_certificates_by_device w sb model authorization = (t, Inl e)
      \<longrightarrow> (\<exists>d. e = HTTPException 401 d \<or> e = HTTPException 500 d)
          \<or> e = HTTPException 404 ''No certificates found'')
   \<and> (get_user_info w sb authorization = (t, Inl e) \<longrightarrow> (\<exists>d. e = HTTPException 401 d))
   \<and> (\<exists>v. root = ([], Inr v))
   \<and> (\<exists>v. health_check w = ([], Inr v))"
  by (intro conjI impI generate_certificate_errors get_my_certificates_errors
      get_certificates_by_device_errors get_user_info_errors)
    (simp_all add: root_def health_check_def io_return_def)


theorem error_statuses_witness:
  "(\<exists>d. snd (generate_certificate w403 demo_client (Inr (PyDict scenario)) (Some ''Bearer tok''))
            = Inl (HTTPException 401 d)
        \<or> snd (generate_certificate w403 demo_client (Inr (PyDict scenario)) (Some ''Bearer tok''))
            = Inl (HTTPException 500 d))
   \<and> (\<exists>d. snd (get_my_certificates w_quota demo_client (Some ''Bearer tok'') 10 0)
            = Inl (HTTPException 401 d)
        \<or> snd (get_my_certificates w_quota demo_client (Some ''Bearer tok'') 10 0)
            = Inl (HTTPException 500 d))
   \<and> ((\<exists>d. snd (get_certificates_by_device w_ok demo_client ''SSD-500'' (Some ''Bearer tok''))
            = Inl (HTTPException 401 d)
        \<or> snd (get_certificates_by_device w_ok demo_client ''SSD-500'' (Some ''Bearer tok''))
            = Inl (HTTPException 500 d))
      \<or> snd (get_certificates_by_device w_ok demo_client ''SSD-500'' (Some ''Bearer tok''))
            = Inl (HTTPException 404 ''No certificates found''))
   \<and> (\<exists>d. snd (get_user_info w401 demo_client (Some ''Bearer tok''))
            = Inl (HTTPException 401 d))"
proof -
  obtain t1 e1 where r1:
    "generate_certificate w403 demo_client (Inr (PyDict scenario)) (Some ''Bearer tok'')
       = (t1, Inl e1)"
    using run403 by simp
  obtain t2 e2 where r2:
    "get_my_certificates w_quota demo_client (Some ''Bearer tok'') 10 0 = (t2, Inl e2)"
    using run_quota by simp
  obtain t3 e3 where r3:
    "get_certificates_by_device w_ok demo_client ''SSD-500'' (Some ''Bearer tok'')
       = (t3, Inl e3)"
    using run_empty by simp
  obtain t4 e4 where r4:
    "get_user_info w401 demo_client (Some ''Bearer tok'') = (t4, Inl e4)"
    using run401_user_info by simp
  from error_statuses [THEN conjunct1, THEN mp, OF r1]
    error_statuses [THEN conjunct2, THEN conjunct1, THEN mp, OF r2]
    error_statuses [THEN conjunct2, THEN conjunct2, THEN conjunct1, THEN mp, OF r3]
    error_statuses [THEN conjunct2, THEN conjunct2, THEN conjunct2, THEN conjunct1, THEN mp, OF r4]
  show ?thesis
    unfolding r1 r2 r3 r4 by simp
qed

text \<open>
  C6. The claim as stated fails: when the identity provider's payload has no \<^verbatim>\<open>id\<close>,
  \<^verbatim>\<open>GET /user-info\<close> answers the \<^verbatim>\<open>KeyError\<close> with HTTP 401, not 500.
\<close>

theorem other_exception_counterexample:
  "get_user_info w_noid demo_client (Some ''Bearer tok'')
     = ([Verify_user ''tok''], Inl (HTTPException 401 (sq @ ''id'' @ sq)))"
  by (rule run_noid)

text \<open>
  C6, amended. An exception other than an \<^verbatim>\<open>HTTPException\<close> raised in the body of
  \<^verbatim>\<open>generate_certificate\<close>, \<^verbatim>\<open>get_my_certificates\<close> or \<^verbatim>\<open>get_certificates_by_device\<close> is
  answered with HTTP 500 and the exception's message as detail; in \<^verbatim>\<open>get_user_info\<close> it
  is answered with HTTP 401 and the exception's message as detail. In particular an
  unparsable JSON body gives 500 with the parser's message, and an identity-provider
  payload without \<^verbatim>\<open>id\<close> gives the message of the \<^verbatim>\<open>KeyError\<close>, with 500 from the first
  three handlers and 401 from \<^verbatim>\<open>get_user_info\<close>.
\<close>

theorem other_exceptions:
  "(generate_certificate_try w sb request authorization = (t, Inl (Error m))
      \<longrightarrow> generate_certificate w sb request authorization = (t, Inl (HTTPException 500 m)))
   \<and> (get_my_certificates_try w sb authorization limit offset = (t, Inl (Error m))
      \<longrightarrow> get_my_certificates w sb authorization limit offset
            = (t, Inl (HTTPException 500 m)))
   \<and> (get_certificates_by_device_try w sb model authorization = (t, Inl (Error m))
      \<longrightarrow> get_certificates_by_device w sb model authorization
            = (t, Inl (HTTPException 500 m)))
   \<and> (get_user_info_try w sb authorization = (t, Inl (Error m))
      \<longrightarrow> get_user_info w sb authorization = (t, Inl (HTTPException 401 m)))
   \<and> (authorization = Some a \<and> prefix ''Bearer '' a
      \<and> verify_user w sb (replace a ''Bearer '' []) = (tv, Inr (PyDict u))
      \<and> map_of u ''id'' = Some uid \<and> request = Inl m
      \<longrightarrow> generate_certificate w sb request authorization = (tv, Inl (HTTPException 500 m)))
   \<and> (authorization = Some a \<and> prefix ''Bearer '' a
      \<and> verify_user w sb (replace a ''Bearer '' []) = (tv, Inr (PyDict u))
      \<and> u \<noteq> [] \<and> map_of u ''id'' = None
      \<longrightarrow> generate_certificate w sb request authorization
            = (tv, Inl (HTTPException 500 (sq @ ''id'' @ sq)))
          \<and> get_my_certificates w sb authorization limit offset
            = (tv, Inl (HTTPException 500 (sq @ ''id'' @ sq)))
          \<and> get_certificates_by_device w sb model authorization
            = (tv, Inl (HTTPException 500 (sq @ ''id'' @ sq)))
          \<and> get_user_info w sb authorization
            = (tv, Inl (HTTPException 401 (sq @ ''id'' @ sq))))"
proof (intro conjI impI; (elim conjE)?)
  show "generate_certificate w sb request authorization = (tv, Inl (HTTPException 500 m))"
    if "authorization = Some a" "prefix ''Bearer '' a"
      "verify_user w sb (replace a ''Bearer '' []) = (tv, Inr (PyDict u))"
      "map_of u ''id'' = Some uid" "request = Inl m"
    using that by (rule unparsable_body)
next
  assume *: "authorization = Some a" "prefix ''Bearer '' a"
      "verify_user w sb (replace a ''Bearer '' []) = (tv, Inr (PyDict u))"
      "u \<noteq> []" "map_of u ''id'' = None"
  note missing = missing_id [OF *]
  show "generate_certificate w sb request authorization
            = (tv, Inl (HTTPException 500 (sq @ ''id'' @ sq)))"
    unfolding generate_certificate_def generate_certificate_try_def
    by (rule except_Error) (rule missing)
  show "get_my_certificates w sb authorization limit offset
            = (tv, Inl (HTTPException 500 (sq @ ''id'' @ sq)))"
    unfolding get_my_certificates_def get_my_certificates_try_def
    by (rule except_Error) (rule missing)
  show "get_certificates_by_device w sb model authorization
            = (tv, Inl (HTTPException 500 (sq @ ''id'' @ sq)))"
    unfolding get_certificates_by_device_def get_certificates_by_device_try_def
    by (rule except_Error) (rule missing)
  show "get_user_info w sb authorization
            = (tv, Inl (HTTPException 401 (sq @ ''id'' @ sq)))"
    unfolding get_user_info_def get_user_info_try_def
    by (rule except_Error) (rule missing)
qed (simp_all add: generate_certificate_def get_my_certificates_def
      get_certificates_by_device_def get_user_info_def except_Exception_def)

theorem other_exceptions_witness:
  "generate_certificate w_noid demo_client (Inr (PyDict scenario)) (Some ''Bearer tok'')
     = ([Verify_user ''tok''], Inl (HTTPException 500 (sq @ ''id'' @ sq)))
   \<and> get_my_certificates w_noid demo_client (Some ''Bearer tok'') 10 0
     = ([Verify_user ''tok''], Inl (HTTPException 500 (sq @ ''id'' @ sq)))
   \<and> get_certificates_by_device w_noid demo_client ''SSD-500'' (Some ''Bearer tok'')
     = ([Verify_user ''tok''], Inl (HTTPException 500 (sq @ ''id'' @ sq)))
   \<and> get_user_info w_noid demo_client (Some ''Bearer tok'')
     = ([Verify_user ''tok''], Inl (HTTPException 401 (sq @ ''id'' @ sq)))
   \<and> generate_certificate w_ok demo_client (Inl ''Expecting value: line 1 column 1 (char 0)'')
       (Some ''Bearer tok'')
     = ([Verify_user ''tok''],
        Inl (HTTPException 500 ''Expecting value: line 1 column 1 (char 0)''))"
proof -
  note T = other_exceptions
  have pre: "prefix ''Bearer '' ''Bearer tok''" by simp
  have f1: "generate_certificate w_noid demo_client (Inr (PyDict scenario)) (Some ''Bearer tok'')
     = ([Verify_user ''tok''], Inl (HTTPException 500 (sq @ ''id'' @ sq)))"
    by (rule T [THEN conjunct1, THEN mp]) (rule try_noid)
  have f2: "get_my_certificates w_noid demo_client (Some ''Bearer tok'') 10 0
     = ([Verify_user ''tok''], Inl (HTTPException 500 (sq @ ''id'' @ sq)))"
    by (rule T [THEN conjunct2, THEN conjunct1, THEN mp]) (rule try_noid)
  have f3: "get_certificates_by_device w_noid demo_client ''SSD-500'' (Some ''Bearer tok'')
     = ([Verify_user ''tok''], Inl (HTTPException 500 (sq @ ''id'' @ sq)))"
    by (rule T [THEN conjunct2, THEN conjunct2, THEN conjunct1, THEN mp]) (rule try_noid)
  have f4: "get_user_info w_noid demo_client (Some ''Bearer tok'')
     = ([Verify_user ''tok''], Inl (HTTPException 401 (sq @ ''id'' @ sq)))"
    by (rule T [THEN conjunct2, THEN conjunct2, THEN conjunct2, THEN conjunct1, THEN mp])
      (rule try_noid)
  have f5: "generate_certificate w_ok demo_client
       (Inl ''Expecting value: line 1 column 1 (char 0)'') (Some ''Bearer tok'')
     = ([Verify_user ''tok''],
        Inl (HTTPException 500 ''Expecting value: line 1 column 1 (char 0)''))"
    by (rule other_exceptions [where a = "''Bearer tok''" and uid = "PyStr ''u-1''"
            and u = "[(''id'', PyStr ''u-1''), (''email'', PyStr ''op@example.com'')]",
          THEN conjunct2, THEN conjunct2, THEN conjunct2, THEN conjunct2, THEN conjunct1,
          THEN mp])
      (intro conjI refl pre verify_ok, simp)
  have f6: "generate_certificate w_noid demo_client (Inr (PyDict scenario)) (Some ''Bearer tok'')
            = ([Verify_user ''tok''], Inl (HTTPException 500 (sq @ ''id'' @ sq)))
          \<and> get_my_certificates w_noid demo_client (Some ''Bearer tok'') 10 0
            = ([Verify_user ''tok''], Inl (HTTPException 500 (sq @ ''id'' @ sq)))
          \<and> get_certificates_by_device w_noid demo_client ''SSD-500'' (Some ''Bearer tok'')
            = ([Verify_user ''tok''], Inl (HTTPException 500 (sq @ ''id'' @ sq)))
          \<and> get_user_info w_noid demo_client (Some ''Bearer tok'')
            = ([Verify_user ''tok''], Inl (HTTPException 401 (sq @ ''id'' @ sq)))"
    by (rule other_exceptions [where a = "''Bearer tok''"
            and u = "[(''email'', PyStr ''op@example.com'')]",
          THEN conjunct2, THEN conjunct2, THEN conjunct2, THEN conjunct2, THEN conjunct2,
          THEN mp])
      (intro conjI refl pre verify_noid, simp_all)
  from f1 f2 f3 f4 f5 f6 show ?thesis by simp
qed

text \<open>
  C7. For the input
  \<^verbatim>\<open>{"media_information": {"model": "SSD-500"}, "manufacturer": "Acme"}\<close> the device model
  resolves to \<^verbatim>\<open>SSD-500\<close> (from the nested section) and the manufacturer to \<^verbatim>\<open>Acme\<close> (from
  the top-level key); and with a valid token (the identity provider answers 200 with a
  payload that has an \<^verbatim>\<open>id\<close>), once the PDF is built and the upload accepted, the handler
  calls \<^verbatim>\<open>insert_record\<close> with a record whose \<^verbatim>\<open>model\<close> is \<^verbatim>\<open>SSD-500\<close> and whose
  \<^verbatim>\<open>manufacturer\<close> is \<^verbatim>\<open>Acme\<close>.
\<close>

theorem scenario_record:
  assumes header: "authorization = Some a" "prefix ''Bearer '' a"
    and token: "verify_user w sb (replace a ''Bearer '' []) = (tv, Inr (PyDict u))"
      "map_of u ''id'' = Some uid"
    and pdf: "generate_certificate_pdf w scenario (uuid4 w)
                (dict_get u ''email'' (PyStr ''unknown@example.com'')) = Inr pdf_bytes"
    and upload: "upload_file w sb ''certificates''
                   (filename w uid (safe_model ''SSD-500'') (uuid4 w)) pdf_bytes = (tu, Inr r)"
      "status_code r \<in> {200, 201}"
  shows "device_model_of scenario = Inr (PyStr ''SSD-500'')
       \<and> manufacturer_of scenario = Inr (PyStr ''Acme'')
       \<and> (\<exists>rec res. generate_certificate w sb (Inr (PyDict scenario)) authorization
                        = (tv @ tu @ [Insert_record ''certificates'' rec], res)
                    \<and> map_of rec ''model'' = Some (PyStr ''SSD-500'')
                    \<and> map_of rec ''manufacturer'' = Some (PyStr ''Acme''))"
proof -
  define em where "em = dict_get u ''email'' (PyStr ''unknown@example.com'')"
  define fn where "fn = filename w uid (safe_model ''SSD-500'') (uuid4 w)"
  from token(2) have "u \<noteq> []" by auto
  with header token(1) have auth:
    "authenticate w sb authorization ''Missing or invalid authorization header''
       ''Invalid authentication token'' = (tv, Inr (PyDict u))"
    by (intro authenticate_valid) simp_all
  obtain rec where rec:
    "certificate_data w scenario (uuid4 w) uid em (PyStr ''Acme'') (PyStr ''SSD-500'')
       (PyStr ''Unknown'') (get_public_url sb ''certificates'' fn) = Inr rec"
    and fields: "map_of rec ''model'' = Some (PyStr ''SSD-500'')"
      "map_of rec ''manufacturer'' = Some (PyStr ''Acme'')"
    using scenario_certificate_data by blast
  have saved: "fst (save_certificate w sb scenario uid em (uuid4 w) ''SSD-500''
                      (get_public_url sb ''certificates'' fn))
               = [Insert_record ''certificates'' rec]"
    by (rule save_certificate_prepared [OF scenario_fields(2,3) rec])
  from upload have store:
    "store_certificate w sb scenario uid em (uuid4 w) pdf_bytes ''SSD-500''
       = (tu @ [Insert_record ''certificates'' rec],
          snd (save_certificate w sb scenario uid em (uuid4 w) ''SSD-500''
                 (get_public_url sb ''certificates'' fn)))"
    using saved
    by (auto simp add: store_certificate_def Let_def io_bind_def fn_def split: prod.splits)
  have "generate_certificate_try w sb (Inr (PyDict scenario)) authorization
          = (tv @ tu @ [Insert_record ''certificates'' rec],
             snd (save_certificate w sb scenario uid em (uuid4 w) ''SSD-500''
                    (get_public_url sb ''certificates'' fn)))"
    using auth token(2) pdf store
    by (simp add: generate_certificate_try_def io_bind_def io_lift_def raised_def py_keys_def
        scenario_fields em_def Let_def)
  then have "\<exists>res. generate_certificate w sb (Inr (PyDict scenario)) authorization
                 = (tv @ tu @ [Insert_record ''certificates'' rec], res)"
    by (simp add: generate_certificate_def except_Exception_def
        split: sum.splits py_exception.splits)
  with fields scenario_fields show ?thesis by blast
qed

theorem scenario_record_witness:
  "device_model_of scenario = Inr (PyStr ''SSD-500'')
   \<and> manufacturer_of scenario = Inr (PyStr ''Acme'')
   \<and> (\<exists>rec res. generate_certificate w_ok demo_client (Inr (PyDict scenario))
                     (Some ''Bearer tok'')
                   = ([Verify_user ''tok''] @
                      [Upload_file ''certificates''
                         ''cert_u-1_SSD-500_1b4e28ba-2fa1-41d2-883f-0016d3cca427.pdf''
                         ''%PDF-1.4''] @
                      [Insert_record ''certificates'' rec], res)
                 \<and> map_of rec ''model'' = Some (PyStr ''SSD-500'')
                 \<and> map_of rec ''manufacturer'' = Some (PyStr ''Acme''))"
proof -
  have pre: "prefix ''Bearer '' ''Bearer tok''" by simp
  have uid: "map_of [(''id'', PyStr ''u-1''), (''email'', PyStr ''op@example.com'')] ''id''
             = Some (PyStr ''u-1'')"
    by simp
  have ok: "status_code (reply 200 ''ok'' (Inl ''no json'')) \<in> {200, 201}"
    by (simp add: reply_def)
  show ?thesis
    by (rule scenario_record [OF refl pre verify_ok uid pdf_ok upload_ok ok])
qed

text \<open>
  C8. Two successful runs of \<^verbatim>\<open>generate_certificate\<close>, in any two worlds and on any two
  requests, that agree on the client's base URL, the user id, the sanitized device model
  and the certificate id return the same storage URL (the bucket is the constant
  \<^verbatim>\<open>certificates\<close>); the URL is the base URL,
  \<^verbatim>\<open>/storage/v1/object/public/certificates/cert_\<close>, the user id, the sanitized model and
  the certificate id joined by \<^verbatim>\<open>_\<close>, and \<^verbatim>\<open>.pdf\<close>.
\<close>

theorem storage_url_deterministic:
  assumes "generate_certificate w1 sb1 request1 authorization1 = (t1, Inr resp1)"
    and "generate_certificate w2 sb2 request2 authorization2 = (t2, Inr resp2)"
    and "url sb1 = url sb2"
    and "user_id resp1 = user_id resp2"
    and "safe_model (device_model resp1) = safe_model (device_model resp2)"
    and "certificate_id resp1 = certificate_id resp2"
  shows "pdf_url resp1 = pdf_url resp2
       \<and> pdf_url resp1
         = url sb1 @ ''/storage/v1/object/public/certificates/cert_'' @ user_id resp1 @ ''_''
             @ safe_model (device_model resp1) @ ''_'' @ certificate_id resp1 @ ''.pdf''"
  using assms(3-6) generate_certificate_url [OF assms(1)] generate_certificate_url [OF assms(2)]
  by simp

theorem storage_url_deterministic_witness:
  "\<exists>resp1 resp2.
     snd (generate_certificate w_ok demo_client (Inr (PyDict scenario_space))
            (Some ''Bearer tok'')) = Inr resp1
   \<and> snd (generate_certificate w_ok demo_client (Inr (PyDict scenario_slash))
            (Some ''Bearer tok'')) = Inr resp2
   \<and> device_model resp1 \<noteq> device_model resp2
   \<and> pdf_url resp1 = pdf_url resp2
   \<and> pdf_url resp1
       = url demo_client @ ''/storage/v1/object/public/certificates/cert_'' @ user_id resp1
           @ ''_'' @ safe_model (device_model resp1) @ ''_'' @ certificate_id resp1 @ ''.pdf''"
proof -
  from run_space obtain t1 resp1 where r1:
    "generate_certificate w_ok demo_client (Inr (PyDict scenario_space)) (Some ''Bearer tok'')
       = (t1, Inr resp1)"
    and f1: "certificate_id resp1 = ''1b4e28ba-2fa1-41d2-883f-0016d3cca427''"
      "user_id resp1 = ''u-1''" "device_model resp1 = ''SSD 500''"
    by auto
  from run_slash obtain t2 resp2 where r2:
    "generate_certificate w_ok demo_client (Inr (PyDict scenario_slash)) (Some ''Bearer tok'')
       = (t2, Inr resp2)"
    and f2: "certificate_id resp2 = ''1b4e28ba-2fa1-41d2-883f-0016d3cca427''"
      "user_id resp2 = ''u-1''" "device_model resp2 = ''SSD/500''"
    by auto
  have same: "user_id resp1 = user_id resp2"
    "safe_model (device_model resp1) = safe_model (device_model resp2)"
    "certificate_id resp1 = certificate_id resp2"
    using f1 f2 safe_model_demo by simp_all
  note main = storage_url_deterministic [OF r1 r2 refl same]
  show ?thesis
  proof (intro exI conjI)
    show "snd (generate_certificate w_ok demo_client (Inr (PyDict scenario_space))
            (Some ''Bearer tok'')) = Inr resp1"
      using r1 by simp
    show "snd (generate_certificate w_ok demo_client (Inr (PyDict scenario_slash))
            (Some ''Bearer tok'')) = Inr resp2"
      using r2 by simp
    show "device_model resp1 \<noteq> device_model resp2"
      using f1(3) f2(3) by simp
    show "pdf_url resp1 = pdf_url resp2"
      using main by (rule conjunct1)
    show "pdf_url resp1
       = url demo_client @ ''/storage/v1/object/public/certificates/cert_'' @ user_id resp1
           @ ''_'' @ safe_model (device_model resp1) @ ''_'' @ certificate_id resp1 @ ''.pdf''"
      using main by (rule conjunct2)
  qed
qed

text \<open>
  C1. The claim as stated fails twice: a top-level key that is present with a falsy value
  (here the empty string) loses to the nested value, and a field without a placeholder in
  the source (here \<^verbatim>\<open>sanitization_method\<close>) resolves to \<^verbatim>\<open>None\<close> when neither key is
  present.
\<close>

theorem field_resolution_counterexample:
  "device_model_of [(''model'', PyStr []),
                    (''media_information'', PyDict [(''model'', PyStr ''SSD-500'')])]
     = Inr (PyStr ''SSD-500'')
   \<and> sanitization_method_of [] = Inr PyNone"
  by (simp add: resolution_defs py_or_def bind_def dict_get_def)

text \<open>
  C1, amended. For each of the eight resolved fields of \<^verbatim>\<open>generate_certificate\<close>, listed
  with its top-level key, its nested section, the key inside that section and its
  placeholder if the source gives one: when the top-level key holds a truthy value, that
  value is the result, whatever the section holds; when the top-level key is absent or
  holds a falsy value and the section is absent or an object, the result is the nested
  value if that is truthy, and otherwise the placeholder (\<^verbatim>\<open>Unknown_Device\<close>,
  \<^verbatim>\<open>Unknown\<close>) for \<^verbatim>\<open>model\<close>, \<^verbatim>\<open>manufacturer\<close> and \<^verbatim>\<open>serial_number\<close>, and the nested value
  itself (\<^verbatim>\<open>None\<close> when the nested key is absent) for the five fields without a
  placeholder.
\<close>

theorem field_resolution:
  "\<forall>(resolve, top_key, section_key, nested_key, placeholder) \<in> set
      [(device_model_of, ''model'', ''media_information'', ''model'',
          Some (PyStr ''Unknown_Device'')),
       (manufacturer_of, ''manufacturer'', ''media_information'', ''manufacturer'',
          Some (PyStr ''Unknown'')),
       (serial_number_of, ''serial_number'', ''media_information'', ''serial_number'',
          Some (PyStr ''Unknown'')),
       (media_type_of, ''media_type'', ''media_information'', ''media_type'', None),
       (sanitization_method_of, ''sanitization_method'', ''tool_information'', ''method'',
          None),
       (sanitization_technique_of, ''sanitization_technique'', ''tool_information'',
          ''technique'', None),
       (tool_used_of, ''tool_used'', ''tool_information'', ''name'', None),
       (verification_method_of, ''verification_method'', ''tool_information'',
          ''verification_method'', None)].
     (truthy (dict_get data top_key PyNone) \<longrightarrow> resolve data = Inr (dict_get data top_key PyNone))
     \<and> (\<not> truthy (dict_get data top_key PyNone)
          \<and> dict_get data section_key (PyDict []) = PyDict sec
        \<longrightarrow> resolve data
            = Inr (case placeholder of
                     Some p \<Rightarrow>
                       if truthy (dict_get sec nested_key PyNone) then dict_get sec nested_key PyNone
                       else p
                   | None \<Rightarrow> dict_get sec nested_key PyNone))"
  by (simp add: resolution_defs chain3_resolution chain2_resolution)

theorem field_resolution_witness:
  "manufacturer_of scenario = Inr (PyStr ''Acme'')
   \<and> device_model_of scenario = Inr (PyStr ''SSD-500'')
   \<and> serial_number_of scenario = Inr (PyStr ''Unknown'')
   \<and> media_type_of scenario = Inr PyNone
   \<and> sanitization_method_of scenario = Inr PyNone"
  using field_resolution [of scenario "[(''model'', PyStr ''SSD-500'')]"]
    field_resolution [of scenario "[]"]
  by (simp add: scenario_def dict_get_def)

text \<open>
  C10. The claim as stated fails for one cell: the \<^verbatim>\<open>Certificate ID\<close> cell is built with
  \<^verbatim>\<open>get_value(cert_metadata, 'certificate_id', certificate_id)\<close>, so a falsy
  \<^verbatim>\<open>certificate_id\<close> in the input renders as the generated certificate id and not as
  \<^verbatim>\<open>N/A\<close>.
\<close>

theorem falsy_cell_counterexample:
  "hd (cert_info_data w_ok (PyDict [(''certificate_id'', PyStr [])])
         ''1b4e28ba-2fa1-41d2-883f-0016d3cca427'')
   = [(''Certificate ID:'', label_style),
      (''1b4e28ba-2fa1-41d2-883f-0016d3cca427'', value_style),
      (''Generated Timestamp:'', label_style),
      (''N/A'', value_style)]"
  by (simp add: cert_info_data_def get_value_def dict_get_def)

text \<open>
  C10, amended. A key that is present with a falsy value is treated as an absent one. In
  field resolution a falsy top-level value is skipped: each of the eight chains gives what
  it gives on the input without that key. In the PDF \<^verbatim>\<open>get_value\<close> returns the cell's
  placeholder, as it does without the key; the placeholder is \<^verbatim>\<open>N/A\<close> for every cell but
  \<^verbatim>\<open>Certificate ID\<close>, whose placeholder is the generated certificate id. A falsy
  \<^verbatim>\<open>passes_performed\<close> or \<^verbatim>\<open>tools_used\<close> (an empty list among them) renders as \<^verbatim>\<open>N/A\<close>.
  So a section whose values are all falsy renders with every value cell \<^verbatim>\<open>N/A\<close> (or the
  certificate id, or the empty filler cell). Every cell's text is a string by its type.
\<close>

theorem falsy_as_absent:
  "(\<forall>(resolve, top_key) \<in> set
      [(device_model_of, ''model''), (manufacturer_of, ''manufacturer''),
       (serial_number_of, ''serial_number''), (media_type_of, ''media_type''),
       (sanitization_method_of, ''sanitization_method''),
       (sanitization_technique_of, ''sanitization_technique''),
       (tool_used_of, ''tool_used''), (verification_method_of, ''verification_method'')].
     \<not> truthy (dict_get data top_key PyNone)
     \<longrightarrow> resolve data = resolve (filter (\<lambda>kv. fst kv \<noteq> top_key) data))
   \<and> (map_of d k = Some v \<and> \<not> truthy v
      \<longrightarrow> get_value w (PyDict d) k dflt = dflt
          \<and> get_value w (PyDict d) k dflt
            = get_value w (PyDict (filter (\<lambda>kv. fst kv \<noteq> k) d)) k dflt)
   \<and> (\<not> truthy passes \<longrightarrow> passes_count passes = Inr ''N/A'')
   \<and> (\<not> truthy tools_used \<longrightarrow> tools_str tools_used = Inr ''N/A'')
   \<and> ((\<forall>v \<in> snd ` set sec. \<not> truthy v)
      \<longrightarrow> (\<forall>row \<in> set (cert_info_data w (PyDict sec) cid). \<forall>(text, st) \<in> set row.
             st = label_style \<or> text = ''N/A'' \<or> text = cid)
          \<and> (\<forall>row \<in> set (tool_data w (PyDict sec)). \<forall>(text, st) \<in> set row.
             st = label_style \<or> text = ''N/A'' \<or> text = [])
          \<and> (\<forall>row \<in> set (media_data w (PyDict sec)). \<forall>(text, st) \<in> set row.
             st = label_style \<or> text = ''N/A'' \<or> text = [])
          \<and> (\<forall>row \<in> set (comp_data w (PyDict sec)). \<forall>(text, st) \<in> set row.
             st = label_style \<or> text = ''N/A'' \<or> text = [])
          \<and> (\<exists>rows. event_data w (PyDict sec) = Inr rows
               \<and> (\<forall>row \<in> set rows. \<forall>(text, st) \<in> set row.
                     st = label_style \<or> text = ''N/A'' \<or> text = []))
          \<and> (\<exists>rows. san_det_data w (PyDict sec) = Inr rows
               \<and> (\<forall>row \<in> set rows. \<forall>(text, st) \<in> set row.
                     st = label_style \<or> text = ''N/A'' \<or> text = []))
          \<and> (\<exists>rows. host_data w (PyDict sec) = Inr rows
               \<and> (\<forall>row \<in> set rows. \<forall>(text, st) \<in> set row.
                     st = label_style \<or> text = ''N/A'' \<or> text = [])))"
proof (intro conjI)
  show "\<forall>(resolve, top_key) \<in> set
      [(device_model_of, ''model''), (manufacturer_of, ''manufacturer''),
       (serial_number_of, ''serial_number''), (media_type_of, ''media_type''),
       (sanitization_method_of, ''sanitization_method''),
       (sanitization_technique_of, ''sanitization_technique''),
       (tool_used_of, ''tool_used''), (verification_method_of, ''verification_method'')].
     \<not> truthy (dict_get data top_key PyNone)
     \<longrightarrow> resolve data = resolve (filter (\<lambda>kv. fst kv \<noteq> top_key) data)"
    by (rule resolution_without)
  show "map_of d k = Some v \<and> \<not> truthy v
      \<longrightarrow> get_value w (PyDict d) k dflt = dflt
          \<and> get_value w (PyDict d) k dflt
            = get_value w (PyDict (filter (\<lambda>kv. fst kv \<noteq> k) d)) k dflt"
    by (simp add: get_value_falsy get_value_without)
  show "\<not> truthy passes \<longrightarrow> passes_count passes = Inr ''N/A''"
    by (simp add: passes_count_def)
  show "\<not> truthy tools_used \<longrightarrow> tools_str tools_used = Inr ''N/A''"
    by (simp add: tools_str_def)
  show "(\<forall>v \<in> snd ` set sec. \<not> truthy v)
      \<longrightarrow> (\<forall>row \<in> set (cert_info_data w (PyDict sec) cid). \<forall>(text, st) \<in> set row.
             st = label_style \<or> text = ''N/A'' \<or> text = cid)
          \<and> (\<forall>row \<in> set (tool_data w (PyDict sec)). \<forall>(text, st) \<in> set row.
             st = label_style \<or> text = ''N/A'' \<or> text = [])
          \<and> (\<forall>row \<in> set (media_data w (PyDict sec)). \<forall>(text, st) \<in> set row.
             st = label_style \<or> text = ''N/A'' \<or> text = [])
          \<and> (\<forall>row \<in> set (comp_data w (PyDict sec)). \<forall>(text, st) \<in> set row.
             st = label_style \<or> text = ''N/A'' \<or> text = [])
          \<and> (\<exists>rows. event_data w (PyDict sec) = Inr rows
               \<and> (\<forall>row \<in> set rows. \<forall>(text, st) \<in> set row.
                     st = label_style \<or> text = ''N/A'' \<or> text = []))
          \<and> (\<exists>rows. san_det_data w (PyDict sec) = Inr rows
               \<and> (\<forall>row \<in> set rows. \<forall>(text, st) \<in> set row.
                     st = label_style \<or> text = ''N/A'' \<or> text = []))
          \<and> (\<exists>rows. host_data w (PyDict sec) = Inr rows
               \<and> (\<forall>row \<in> set rows. \<forall>(text, st) \<in> set row.
                     st = label_style \<or> text = ''N/A'' \<or> text = []))"
    by (intro impI conjI tables_all_falsy)
qed

theorem falsy_as_absent_witness:
  "device_model_of falsy_input = device_model_of [(''media_information'', PyDict falsy_media)]
   \<and> get_value w_ok (PyDict falsy_media) ''model'' ''N/A'' = ''N/A''
   \<and> get_value w_ok (PyDict falsy_media) ''capacity_gb'' ''N/A''
       = get_value w_ok (PyDict (filter (\<lambda>kv. fst kv \<noteq> ''capacity_gb'') falsy_media))
           ''capacity_gb'' ''N/A''
   \<and> passes_count (PyList []) = Inr ''N/A''
   \<and> tools_str (PyList []) = Inr ''N/A''
   \<and> list_all
         (\<lambda>row. list_all (\<lambda>(text, st). st = label_style \<or> text = ''N/A'' \<or> text = []) row)
         (media_data w_ok (PyDict falsy_media))"
proof -
  have falsy: "\<forall>v \<in> snd ` set falsy_media. \<not> truthy v"
    by (simp add: falsy_media_def)
  have a: "device_model_of falsy_input
           = device_model_of [(''media_information'', PyDict falsy_media)]"
    using falsy_as_absent [of falsy_input, THEN conjunct1]
    by (simp add: falsy_input_def dict_get_def)
  have b: "get_value w_ok (PyDict falsy_media) ''model'' ''N/A'' = ''N/A''"
    using falsy_as_absent [where d = falsy_media and k = "''model''" and v = "PyInt 0"
        and w = w_ok and dflt = "''N/A''", THEN conjunct2, THEN conjunct1]
    by (simp add: falsy_media_def)
  have c: "get_value w_ok (PyDict falsy_media) ''capacity_gb'' ''N/A''
       = get_value w_ok (PyDict (filter (\<lambda>kv. fst kv \<noteq> ''capacity_gb'') falsy_media))
           ''capacity_gb'' ''N/A''"
  proof -
    have present: "map_of falsy_media ''capacity_gb'' = Some (PyBool False)
                   \<and> \<not> truthy (PyBool False)"
      by (simp add: falsy_media_def)
    from falsy_as_absent [where d = falsy_media and k = "''capacity_gb''"
        and v = "PyBool False" and w = w_ok and dflt = "''N/A''",
        THEN conjunct2, THEN conjunct1, THEN mp, OF present]
    show ?thesis by (rule conjunct2)
  qed
  have d: "passes_count (PyList []) = Inr ''N/A''"
    using falsy_as_absent [where passes = "PyList []",
        THEN conjunct2, THEN conjunct2, THEN conjunct1]
    by simp
  have e: "tools_str (PyList []) = Inr ''N/A''"
    using falsy_as_absent [where tools_used = "PyList []",
        THEN conjunct2, THEN conjunct2, THEN conjunct2, THEN conjunct1]
    by simp
  have f: "list_all
         (\<lambda>row. list_all (\<lambda>(text, st). st = label_style \<or> text = ''N/A'' \<or> text = []) row)
         (media_data w_ok (PyDict falsy_media))"
    unfolding list_all_iff
    by (rule falsy_as_absent [where sec = falsy_media and w = w_ok,
        THEN conjunct2, THEN conjunct2, THEN conjunct2, THEN conjunct2, THEN mp, OF falsy,
        THEN conjunct2, THEN conjunct2, THEN conjunct1])
  show ?thesis
    by (intro conjI a b c d e f)
qed

end
